theory Spec2Isabelle
  imports Complex_Main "HOL-Library.Sublist"
begin

section \<open>Strings of the host language\<close>

text \<open>
  Strings are lists of characters with codes below 256. The four characters that the
  program treats specially cannot be written inside a string literal, so they get names.
\<close>

abbreviation dq :: char where "dq \<equiv> CHR 0x22"
abbreviation sq :: char where "sq \<equiv> CHR 0x27"
abbreviation bs :: char where "bs \<equiv> CHR 0x5C"
abbreviation nl :: char where "nl \<equiv> CHR 0x0A"

text \<open>
  \<^verbatim>\<open>s.replace(/c/g, r)\<close> for a single character \<open>c\<close> and a replacement \<open>r\<close> without
  \<^verbatim>\<open>$\<close> patterns: every occurrence of \<open>c\<close> becomes \<open>r\<close>.
\<close>

definition replace_global :: "char \<Rightarrow> string \<Rightarrow> string \<Rightarrow> string" where
  "replace_global c r s = concat (map (\<lambda>x. if x = c then r else [x]) s)"

text \<open>\<^verbatim>\<open>String.prototype.trim\<close>: white space and line terminators below code 256.\<close>

definition is_white_space :: "char \<Rightarrow> bool" where
  "is_white_space c =
     (c \<in> {CHR 0x09, CHR 0x0A, CHR 0x0B, CHR 0x0C, CHR 0x0D, CHR 0x20, CHR 0xA0})"

definition trim :: "string \<Rightarrow> string" where
  "trim s = rev (dropWhile is_white_space (rev (dropWhile is_white_space s)))"

text \<open>
  A template literal is written as the list of its lines; \<open>join_lines\<close> puts the line
  feeds back.
\<close>

fun join_lines :: "string list \<Rightarrow> string" where
  "join_lines [] = []"
| "join_lines [l] = l"
| "join_lines (l # m # ls) = l @ nl # join_lines (m # ls)"

text \<open>The decimal numeral of an integer.\<close>

fun digits :: "nat \<Rightarrow> string" where
  "digits n =
     (if n < 10 then [''0123456789'' ! n]
      else digits (n div 10) @ [''0123456789'' ! (n mod 10)])"

declare digits.simps [simp del]

definition decimal :: "int \<Rightarrow> string" where
  "decimal i = (if i < 0 then CHR ''-'' # digits (nat (- i)) else digits (nat i))"

section \<open>Values\<close>

text \<open>
  A number of the host language: a finite value, an infinity or \<^verbatim>\<open>NaN\<close>. The finite
  values that occur are the doubles, which are rationals; the two zeros print alike and are
  one value here.
\<close>

datatype number = Finite rat | PosInfinity | NegInfinity | NaN

text \<open>
  A value of an argument, as parsed from the request: the handler's casts leave no trace
  at run time, so every argument can hold any of these. An absent property
  (\<^verbatim>\<open>undefined\<close>) is \<open>None\<close>.
\<close>

datatype json =
    JNull
  | JBoolean bool
  | JNumber number
  | JString string
  | JArray "json list"
  | JObject "(string \<times> json) list"

text \<open>
  Where a \<^verbatim>\<open>TypeError\<close> is thrown: reading a property of the missing arguments object,
  destructuring it, or calling \<^verbatim>\<open>replace\<close> on the named variable.
\<close>

datatype site = ReadProperty string | Destructure string | CallReplace string

datatype js_error = Error string | TypeError site "json option"

section \<open>The runtime: the executor and the engine\<close>

text \<open>
  \<^verbatim>\<open>execSync\<close> either returns the standard output of the command or throws an error
  object that may carry the standard error stream. The engine's own behaviour that the
  program relies on is a parameter too: the wording of its \<^verbatim>\<open>TypeError\<close>s, how it prints
  a finite number that is not an integer below \<open>2^53\<close> in magnitude, how it reads a string
  as a number, and how it converts an array or an object to a string or to a number
  (which may throw).
\<close>

record exec_failure =
  stderr :: "string option"
  failure_message :: string

record runtime =
  execSync :: "string \<Rightarrow> exec_failure + string"
  typeErrorMessage :: "site \<Rightarrow> json option \<Rightarrow> string"
  numberToString :: "rat \<Rightarrow> string"
  stringToNumber :: "string \<Rightarrow> number"
  objectToString :: "json \<Rightarrow> js_error + string"
  objectToNumber :: "json \<Rightarrow> js_error + number"

definition message :: "runtime \<Rightarrow> js_error \<Rightarrow> string" where
  "message rt e = (case e of Error m \<Rightarrow> m | TypeError s v \<Rightarrow> typeErrorMessage rt s v)"

text \<open>\<^verbatim>\<open>err.stderr || err.message\<close>\<close>

definition stderr_or_message :: "exec_failure \<Rightarrow> string" where
  "stderr_or_message err =
     (case stderr err of
        None \<Rightarrow> failure_message err
      | Some s \<Rightarrow> if s = [] then failure_message err else s)"

subsection \<open>Conversions\<close>

text \<open>
  How a number prints in a template literal. An integer of magnitude below \<open>2^53\<close> prints
  as its decimal numeral; for the other finite numbers the digits are the engine's.
\<close>

definition Number_toString :: "runtime \<Rightarrow> number \<Rightarrow> string" where
  "Number_toString rt n =
     (case n of
        NaN \<Rightarrow> ''NaN''
      | PosInfinity \<Rightarrow> ''Infinity''
      | NegInfinity \<Rightarrow> ''-Infinity''
      | Finite q \<Rightarrow>
          if of_int \<lfloor>q\<rfloor> = q \<and> \<bar>q\<bar> < 2 ^ 53 then decimal \<lfloor>q\<rfloor> else numberToString rt q)"

text \<open>What \<^verbatim>\<open>${x}\<close> prints.\<close>

definition ToString :: "runtime \<Rightarrow> json option \<Rightarrow> js_error + string" where
  "ToString rt v =
     (case v of
        None \<Rightarrow> Inr ''undefined''
      | Some JNull \<Rightarrow> Inr ''null''
      | Some (JBoolean b) \<Rightarrow> Inr (if b then ''true'' else ''false'')
      | Some (JNumber n) \<Rightarrow> Inr (Number_toString rt n)
      | Some (JString s) \<Rightarrow> Inr s
      | Some (JArray xs) \<Rightarrow> objectToString rt (JArray xs)
      | Some (JObject kvs) \<Rightarrow> objectToString rt (JObject kvs))"

text \<open>The number that an arithmetic function sees.\<close>

definition ToNumber :: "runtime \<Rightarrow> json option \<Rightarrow> js_error + number" where
  "ToNumber rt v =
     (case v of
        None \<Rightarrow> Inr NaN
      | Some JNull \<Rightarrow> Inr (Finite 0)
      | Some (JBoolean b) \<Rightarrow> Inr (Finite (if b then 1 else 0))
      | Some (JNumber n) \<Rightarrow> Inr n
      | Some (JString s) \<Rightarrow> Inr (stringToNumber rt s)
      | Some (JArray xs) \<Rightarrow> objectToNumber rt (JArray xs)
      | Some (JObject kvs) \<Rightarrow> objectToNumber rt (JObject kvs))"

text \<open>The truth value of a condition \<^verbatim>\<open>x ? a : b\<close>.\<close>

definition ToBoolean :: "json option \<Rightarrow> bool" where
  "ToBoolean v =
     (case v of
        None \<Rightarrow> False
      | Some JNull \<Rightarrow> False
      | Some (JBoolean b) \<Rightarrow> b
      | Some (JNumber n) \<Rightarrow> n \<noteq> Finite 0 \<and> n \<noteq> NaN
      | Some (JString s) \<Rightarrow> s \<noteq> []
      | Some (JArray xs) \<Rightarrow> True
      | Some (JObject kvs) \<Rightarrow> True)"

text \<open>\<^verbatim>\<open>Math.min\<close> and \<^verbatim>\<open>Math.max\<close> of two numbers.\<close>

definition Math_min :: "number \<Rightarrow> number \<Rightarrow> number" where
  "Math_min x y =
     (if x = NaN \<or> y = NaN then NaN
      else if x = NegInfinity \<or> y = NegInfinity then NegInfinity
      else case (x, y) of
             (Finite p, Finite q) \<Rightarrow> Finite (min p q)
           | (Finite p, _) \<Rightarrow> Finite p
           | (_, Finite q) \<Rightarrow> Finite q
           | _ \<Rightarrow> PosInfinity)"

definition Math_max :: "number \<Rightarrow> number \<Rightarrow> number" where
  "Math_max x y =
     (if x = NaN \<or> y = NaN then NaN
      else if x = PosInfinity \<or> y = PosInfinity then PosInfinity
      else case (x, y) of
             (Finite p, Finite q) \<Rightarrow> Finite (max p q)
           | (Finite p, _) \<Rightarrow> Finite p
           | (_, Finite q) \<Rightarrow> Finite q
           | _ \<Rightarrow> NegInfinity)"

text \<open>A destructuring default \<^verbatim>\<open>{ x = d }\<close>: \<open>d\<close> exactly when \<open>x\<close> is \<^verbatim>\<open>undefined\<close>.\<close>

definition with_default :: "json \<Rightarrow> json option \<Rightarrow> json" where
  "with_default d v = (case v of None \<Rightarrow> d | Some x \<Rightarrow> x)"

subsection \<open>Running a script\<close>

text \<open>
  A computation yields the commands it handed to \<^verbatim>\<open>execSync\<close>, in order, and either a
  thrown value or its result.
\<close>

type_synonym 'a effect = "string list \<times> (js_error + 'a)"

definition single_quoted_command :: "string \<Rightarrow> string" where
  "single_quoted_command script =
     ''osascript -e '' @ [sq] @ replace_global sq [sq, dq, sq, dq, sq] script @ [sq]"

definition runAppleScript :: "runtime \<Rightarrow> string \<Rightarrow> string effect" where
  "runAppleScript rt script =
     (let command = single_quoted_command script in
      ([command],
       case execSync rt command of
         Inr out \<Rightarrow> Inr (trim out)
       | Inl err \<Rightarrow> Inl (Error (''AppleScript error: '' @ stderr_or_message err))))"

definition escapedScript :: "string \<Rightarrow> string" where
  "escapedScript script = replace_global dq [bs, dq] (replace_global bs [bs, bs] script)"

definition double_quoted_command :: "string \<Rightarrow> string" where
  "double_quoted_command script = ''osascript -e '' @ [dq] @ escapedScript script @ [dq]"

definition runAppleScriptMulti :: "runtime \<Rightarrow> string \<Rightarrow> string effect" where
  "runAppleScriptMulti rt script =
     (let command = double_quoted_command script in
      ([command],
       case execSync rt command of
         Inr out \<Rightarrow> Inr (trim out)
       | Inl err \<Rightarrow> Inl (Error (''AppleScript error: '' @ stderr_or_message err))))"

section \<open>Requests and results\<close>

text \<open>
  The arguments object maps property names to values. The request may carry no arguments
  object at all.
\<close>

type_synonym arguments = "string \<Rightarrow> json option"

record tool_result =
  "text" :: string
  isError :: bool

definition ok :: "string \<Rightarrow> tool_result" where
  "ok t = \<lparr>text = t, isError = False\<rparr>"

text \<open>Run a script, then build the result from its output; a thrown value passes through.\<close>

definition returning :: "string effect \<Rightarrow> (string \<Rightarrow> tool_result) \<Rightarrow> tool_result effect" where
  "returning e f =
     (case e of
        (commands, Inl err) \<Rightarrow> (commands, Inl err)
      | (commands, Inr out) \<Rightarrow> (commands, Inr (f out)))"

text \<open>The same when building the result may itself throw, after the script has run.\<close>

definition returning_checked ::
    "string effect \<Rightarrow> (string \<Rightarrow> js_error + tool_result) \<Rightarrow> tool_result effect" where
  "returning_checked e f =
     (case e of
        (commands, Inl err) \<Rightarrow> (commands, Inl err)
      | (commands, Inr out) \<Rightarrow> (commands, f out))"

text \<open>
  \<^verbatim>\<open>x.replace(/"/g, '\\"')\<close> on the variable \<open>x\<close>: only a string has the method; on
  anything else the call throws.
\<close>

definition escape_quotes :: "string \<Rightarrow> string" where
  "escape_quotes s = replace_global dq [bs, dq] s"

definition replace_quotes :: "string \<Rightarrow> json option \<Rightarrow> js_error + string" where
  "replace_quotes x v =
     (case v of
        Some (JString s) \<Rightarrow> Inr (escape_quotes s)
      | _ \<Rightarrow> Inl (TypeError (CallReplace x) v))"

text \<open>\<^verbatim>\<open>artist ? artist.replace(/"/g, '\\"') : null\<close>, where \<open>None\<close> is \<^verbatim>\<open>null\<close>.\<close>

definition safe_optional :: "string \<Rightarrow> json option \<Rightarrow> js_error + string option" where
  "safe_optional x v =
     (if ToBoolean v then
        (case replace_quotes x v of Inl e \<Rightarrow> Inl e | Inr s \<Rightarrow> Inr (Some s))
      else Inr None)"

section \<open>The generated scripts\<close>

definition script_get_current_track :: string where
  \<open>script_get_current_track = join_lines
    ['''',
     ''tell application "Music"'',
     ''  if player state is not stopped then'',
     ''    set currentTrack to current track'',
     ''    set trackInfo to "Name: " & name of currentTrack & "'' @ [bs] @ ''n"'',
     ''    set trackInfo to trackInfo & "Artist: " & artist of currentTrack & "'' @ [bs] @ ''n"'',
     ''    set trackInfo to trackInfo & "Album: " & album of currentTrack & "'' @ [bs] @ ''n"'',
     ''    set trackInfo to trackInfo & "Duration: " & (duration of currentTrack) & " seconds''
        @ [bs] @ ''n"'',
     ''    set trackInfo to trackInfo & "Year: " & year of currentTrack & "'' @ [bs] @ ''n"'',
     ''    set trackInfo to trackInfo & "Genre: " & genre of currentTrack'',
     ''    return trackInfo'',
     ''  else'',
     ''    return "No track is currently playing"'',
     ''  end if'',
     ''end tell'']\<close>

definition script_get_playlists :: string where
  \<open>script_get_playlists = join_lines
    ['''',
     ''tell application "Music"'',
     ''  set playlistNames to ""'',
     ''  repeat with p in playlists'',
     ''    set playlistNames to playlistNames & name of p & "'' @ [bs] @ ''n"'',
     ''  end repeat'',
     ''  return playlistNames'',
     ''end tell'']\<close>

definition script_get_playlist_tracks :: "string \<Rightarrow> string \<Rightarrow> string" where
  \<open>script_get_playlist_tracks safeName limitText = join_lines
    ['''',
     ''tell application "Music"'',
     ''  try'',
     ''    set thePlaylist to playlist "'' @ safeName @ ''"'',
     ''    set trackList to ""'',
     ''    set trackCount to 0'',
     ''    repeat with t in tracks of thePlaylist'',
     ''      if trackCount < '' @ limitText @ '' then'',
     ''        set trackList to trackList & name of t & " - " & artist of t & "'' @ [bs] @ ''n"'',
     ''        set trackCount to trackCount + 1'',
     ''      end if'',
     ''    end repeat'',
     ''    if trackList is "" then'',
     ''      return "Playlist is empty"'',
     ''    end if'',
     ''    return trackList'',
     ''  on error'',
     ''    return "Playlist not found: '' @ safeName @ ''"'',
     ''  end try'',
     ''end tell'']\<close>

definition script_play_playlist :: "string \<Rightarrow> bool \<Rightarrow> string" where
  \<open>script_play_playlist safeName shuf = join_lines
    ['''',
     ''tell application "Music"'',
     ''  try'',
     ''    set thePlaylist to playlist "'' @ safeName @ ''"'',
     ''    '' @ (if shuf then ''set shuffle enabled to true'' else ''''),
     ''    play thePlaylist'',
     ''    return "Playing playlist: '' @ safeName @ ''"'',
     ''  on error'',
     ''    return "Playlist not found: '' @ safeName @ ''"'',
     ''  end try'',
     ''end tell'']\<close>

definition script_search_songs :: "string \<Rightarrow> string \<Rightarrow> string" where
  \<open>script_search_songs safeQuery limitText = join_lines
    ['''',
     ''tell application "Music"'',
     ''  set results to ""'',
     ''  set matchCount to 0'',
     ''  repeat with t in (every track whose name contains "'' @ safeQuery
        @ ''" or artist contains "'' @ safeQuery @ ''" or album contains "'' @ safeQuery @ ''")'',
     ''    if matchCount < '' @ limitText @ '' then'',
     ''      set results to results & name of t & " - " & artist of t & " (" & album of t & ")''
        @ [bs] @ ''n"'',
     ''      set matchCount to matchCount + 1'',
     ''    end if'',
     ''  end repeat'',
     ''  if results is "" then'',
     ''    return "No results found for: '' @ safeQuery @ ''"'',
     ''  end if'',
     ''  return results'',
     ''end tell'']\<close>

definition script_search_albums :: "string \<Rightarrow> string \<Rightarrow> string" where
  \<open>script_search_albums safeQuery limitText = join_lines
    ['''',
     ''tell application "Music"'',
     ''  set results to ""'',
     ''  set albumList to {}'',
     ''  set matchCount to 0'',
     ''  repeat with t in (every track whose album contains "'' @ safeQuery @ ''")'',
     ''    if matchCount < '' @ limitText @ '' then'',
     ''      set albumKey to album of t & " - " & album artist of t'',
     ''      if albumKey is not in albumList then'',
     ''        set end of albumList to albumKey'',
     ''        set results to results & album of t & " - " & album artist of t & "'' @ [bs] @ ''n"'',
     ''        set matchCount to matchCount + 1'',
     ''      end if'',
     ''    end if'',
     ''  end repeat'',
     ''  if results is "" then'',
     ''    return "No albums found for: '' @ safeQuery @ ''"'',
     ''  end if'',
     ''  return results'',
     ''end tell'']\<close>

definition script_search_artists :: "string \<Rightarrow> string \<Rightarrow> string" where
  \<open>script_search_artists safeQuery limitText = join_lines
    ['''',
     ''tell application "Music"'',
     ''  set results to ""'',
     ''  set artistList to {}'',
     ''  set matchCount to 0'',
     ''  repeat with t in (every track whose artist contains "'' @ safeQuery @ ''")'',
     ''    if matchCount < '' @ limitText @ '' then'',
     ''      set artistName to artist of t'',
     ''      if artistName is not in artistList then'',
     ''        set end of artistList to artistName'',
     ''        set results to results & artistName & "'' @ [bs] @ ''n"'',
     ''        set matchCount to matchCount + 1'',
     ''      end if'',
     ''    end if'',
     ''  end repeat'',
     ''  if results is "" then'',
     ''    return "No artists found for: '' @ safeQuery @ ''"'',
     ''  end if'',
     ''  return results'',
     ''end tell'']\<close>

text \<open>
  The nested template of the song tools: \<^verbatim>\<open>safeArtist ? ... : ...\<close>, where \<open>None\<close> is
  \<^verbatim>\<open>null\<close>.
\<close>

definition matching_tracks_line :: "string \<Rightarrow> string option \<Rightarrow> string" where
  \<open>matching_tracks_line safeSong safeArtist =
    (case safeArtist of
       Some sa \<Rightarrow>
         if sa \<noteq> [] then
           ''set matchingTracks to (every track whose name contains "'' @ safeSong
             @ ''" and artist contains "'' @ sa @ ''")''
         else ''set matchingTracks to (every track whose name contains "'' @ safeSong @ ''")''
     | None \<Rightarrow> ''set matchingTracks to (every track whose name contains "'' @ safeSong @ ''")'')\<close>

definition script_play_song :: "string \<Rightarrow> string option \<Rightarrow> string" where
  \<open>script_play_song safeSong safeArtist = join_lines
    ['''',
     ''tell application "Music"'',
     ''  try'',
     ''    '' @ matching_tracks_line safeSong safeArtist,
     ''    if (count of matchingTracks) > 0 then'',
     ''      play item 1 of matchingTracks'',
     ''      set t to item 1 of matchingTracks'',
     ''      return "Playing: " & name of t & " - " & artist of t'',
     ''    else'',
     ''      return "Song not found: '' @ safeSong @ ''"'',
     ''    end if'',
     ''  on error errMsg'',
     ''    return "Error: " & errMsg'',
     ''  end try'',
     ''end tell'']\<close>

definition album_tracks_line :: "string \<Rightarrow> string option \<Rightarrow> string" where
  \<open>album_tracks_line safeAlbum safeArtist =
    (case safeArtist of
       Some sa \<Rightarrow>
         if sa \<noteq> [] then
           ''set albumTracks to (every track whose album is "'' @ safeAlbum
             @ ''" and album artist contains "'' @ sa @ ''")''
         else ''set albumTracks to (every track whose album is "'' @ safeAlbum @ ''")''
     | None \<Rightarrow> ''set albumTracks to (every track whose album is "'' @ safeAlbum @ ''")'')\<close>

definition script_play_album :: "string \<Rightarrow> string option \<Rightarrow> string" where
  \<open>script_play_album safeAlbum safeArtist = join_lines
    ['''',
     ''tell application "Music"'',
     ''  try'',
     ''    '' @ album_tracks_line safeAlbum safeArtist,
     ''    if (count of albumTracks) > 0 then'',
     ''      play item 1 of albumTracks'',
     ''      return "Playing album: '' @ safeAlbum @ ''"'',
     ''    else'',
     ''      return "Album not found: '' @ safeAlbum @ ''"'',
     ''    end if'',
     ''  on error errMsg'',
     ''    return "Error: " & errMsg'',
     ''  end try'',
     ''end tell'']\<close>

definition script_play_artist :: "string \<Rightarrow> bool \<Rightarrow> string" where
  \<open>script_play_artist safeArtist shuf = join_lines
    ['''',
     ''tell application "Music"'',
     ''  try'',
     ''    set artistTracks to (every track whose artist contains "'' @ safeArtist @ ''")'',
     ''    if (count of artistTracks) > 0 then'',
     ''      '' @ (if shuf then ''set shuffle enabled to true'' else ''''),
     ''      play item 1 of artistTracks'',
     ''      return "Playing songs by: '' @ safeArtist @ ''"'',
     ''    else'',
     ''      return "No songs found by: '' @ safeArtist @ ''"'',
     ''    end if'',
     ''  on error errMsg'',
     ''    return "Error: " & errMsg'',
     ''  end try'',
     ''end tell'']\<close>

definition script_add_to_queue :: "string \<Rightarrow> string option \<Rightarrow> string" where
  \<open>script_add_to_queue safeSong safeArtist = join_lines
    ['''',
     ''tell application "Music"'',
     ''  try'',
     ''    '' @ matching_tracks_line safeSong safeArtist,
     ''    if (count of matchingTracks) > 0 then'',
     ''      set t to item 1 of matchingTracks'',
     ''      return "Found: " & name of t & " - " & artist of t & "'' @ [bs]
        @ ''nNote: Direct queue manipulation requires manual action in Music app"'',
     ''    else'',
     ''      return "Song not found: '' @ safeSong @ ''"'',
     ''    end if'',
     ''  on error errMsg'',
     ''    return "Error: " & errMsg'',
     ''  end try'',
     ''end tell'']\<close>

definition script_love_track :: string where
  \<open>script_love_track = join_lines
    ['''',
     ''tell application "Music"'',
     ''  if player state is not stopped then'',
     ''    set loved of current track to true'',
     ''    return "Loved: " & name of current track'',
     ''  else'',
     ''    return "No track is playing"'',
     ''  end if'',
     ''end tell'']\<close>

definition script_dislike_track :: string where
  \<open>script_dislike_track = join_lines
    ['''',
     ''tell application "Music"'',
     ''  if player state is not stopped then'',
     ''    set disliked of current track to true'',
     ''    return "Disliked: " & name of current track'',
     ''  else'',
     ''    return "No track is playing"'',
     ''  end if'',
     ''end tell'']\<close>

section \<open>The branches of the call-tool handler\<close>

subsection \<open>Playback control\<close>

definition music_play :: "runtime \<Rightarrow> tool_result effect" where
  \<open>music_play rt =
     returning (runAppleScript rt ''tell application "Music" to play'')
       (\<lambda>_. ok ''Playback started'')\<close>

definition music_pause :: "runtime \<Rightarrow> tool_result effect" where
  \<open>music_pause rt =
     returning (runAppleScript rt ''tell application "Music" to pause'')
       (\<lambda>_. ok ''Playback paused'')\<close>

definition music_stop :: "runtime \<Rightarrow> tool_result effect" where
  \<open>music_stop rt =
     returning (runAppleScript rt ''tell application "Music" to stop'')
       (\<lambda>_. ok ''Playback stopped'')\<close>

definition music_next :: "runtime \<Rightarrow> tool_result effect" where
  \<open>music_next rt =
     returning (runAppleScript rt ''tell application "Music" to next track'')
       (\<lambda>_. ok ''Skipped to next track'')\<close>

definition music_previous :: "runtime \<Rightarrow> tool_result effect" where
  \<open>music_previous rt =
     returning (runAppleScript rt ''tell application "Music" to previous track'')
       (\<lambda>_. ok ''Went to previous track'')\<close>

definition music_toggle_playback :: "runtime \<Rightarrow> tool_result effect" where
  \<open>music_toggle_playback rt =
     returning (runAppleScript rt ''tell application "Music" to playpause'')
       (\<lambda>_. ok ''Toggled playback'')\<close>

subsection \<open>Current track, volume, position\<close>

definition music_get_current_track :: "runtime \<Rightarrow> tool_result effect" where
  "music_get_current_track rt =
     returning (runAppleScriptMulti rt script_get_current_track) (\<lambda>result. ok result)"

definition music_get_player_state :: "runtime \<Rightarrow> tool_result effect" where
  \<open>music_get_player_state rt =
     returning (runAppleScript rt ''tell application "Music" to return player state as string'')
       (\<lambda>result. ok (''Player state: '' @ result))\<close>

definition music_get_volume :: "runtime \<Rightarrow> tool_result effect" where
  \<open>music_get_volume rt =
     returning (runAppleScript rt ''tell application "Music" to return sound volume'')
       (\<lambda>result. ok (''Volume: '' @ result @ ''%''))\<close>

text \<open>\<^verbatim>\<open>Math.max(0, Math.min(100, v))\<close>\<close>

definition clamp_volume :: "number \<Rightarrow> number" where
  "clamp_volume n = Math_max (Finite 0) (Math_min (Finite 100) n)"

definition music_set_volume :: "runtime \<Rightarrow> arguments option \<Rightarrow> tool_result effect" where
  \<open>music_set_volume rt args =
     (case args of
        None \<Rightarrow> ([], Inl (TypeError (ReadProperty ''volume'') None))
      | Some a \<Rightarrow>
          (case ToNumber rt (a ''volume'') of
             Inl e \<Rightarrow> ([], Inl e)
           | Inr n \<Rightarrow>
               let vol = Number_toString rt (clamp_volume n) in
               returning
                 (runAppleScript rt (''tell application "Music" to set sound volume to '' @ vol))
                 (\<lambda>_. ok (''Volume set to '' @ vol @ ''%''))))\<close>

definition music_get_position :: "runtime \<Rightarrow> tool_result effect" where
  \<open>music_get_position rt =
     returning (runAppleScript rt ''tell application "Music" to return player position'')
       (\<lambda>result. ok (''Position: '' @ result @ '' seconds''))\<close>

definition music_set_position :: "runtime \<Rightarrow> arguments option \<Rightarrow> tool_result effect" where
  \<open>music_set_position rt args =
     (case args of
        None \<Rightarrow> ([], Inl (TypeError (ReadProperty ''position'') None))
      | Some a \<Rightarrow>
          (case ToString rt (a ''position'') of
             Inl e \<Rightarrow> ([], Inl e)
           | Inr pos \<Rightarrow>
               returning
                 (runAppleScript rt (''tell application "Music" to set player position to '' @ pos))
                 (\<lambda>_. ok (''Position set to '' @ pos @ '' seconds''))))\<close>

subsection \<open>Shuffle and repeat\<close>

definition music_get_shuffle :: "runtime \<Rightarrow> tool_result effect" where
  \<open>music_get_shuffle rt =
     returning (runAppleScript rt ''tell application "Music" to return shuffle enabled'')
       (\<lambda>result. ok (''Shuffle: '' @ (if result = ''true'' then ''on'' else ''off'')))\<close>

definition music_set_shuffle :: "runtime \<Rightarrow> arguments option \<Rightarrow> tool_result effect" where
  \<open>music_set_shuffle rt args =
     (case args of
        None \<Rightarrow> ([], Inl (TypeError (ReadProperty ''enabled'') None))
      | Some a \<Rightarrow>
          (case ToString rt (a ''enabled'') of
             Inl e \<Rightarrow> ([], Inl e)
           | Inr en \<Rightarrow>
               returning
                 (runAppleScript rt (''tell application "Music" to set shuffle enabled to '' @ en))
                 (\<lambda>_. ok (''Shuffle ''
                          @ (if ToBoolean (a ''enabled'') then ''enabled'' else ''disabled'')))))\<close>

definition music_get_repeat :: "runtime \<Rightarrow> tool_result effect" where
  \<open>music_get_repeat rt =
     returning (runAppleScript rt ''tell application "Music" to return song repeat as string'')
       (\<lambda>result. ok (''Repeat mode: '' @ result))\<close>

definition repeatValue :: "json option \<Rightarrow> string" where
  "repeatValue m =
     (if m = Some (JString ''off'') then ''off''
      else if m = Some (JString ''one'') then ''one''
      else ''all'')"

definition music_set_repeat :: "runtime \<Rightarrow> arguments option \<Rightarrow> tool_result effect" where
  \<open>music_set_repeat rt args =
     (case args of
        None \<Rightarrow> ([], Inl (TypeError (ReadProperty ''mode'') None))
      | Some a \<Rightarrow>
          returning_checked
            (runAppleScript rt
               (''tell application "Music" to set song repeat to '' @ repeatValue (a ''mode'')))
            (\<lambda>_. case ToString rt (a ''mode'') of
                   Inl e \<Rightarrow> Inl e
                 | Inr m \<Rightarrow> Inr (ok (''Repeat mode set to '' @ m))))\<close>

subsection \<open>Library access\<close>

definition music_get_playlists :: "runtime \<Rightarrow> tool_result effect" where
  "music_get_playlists rt =
     returning (runAppleScriptMulti rt script_get_playlists)
       (\<lambda>result. ok (''Playlists:'' @ [nl] @ result))"

definition music_get_playlist_tracks :: "runtime \<Rightarrow> arguments option \<Rightarrow> tool_result effect" where
  "music_get_playlist_tracks rt args =
     (case args of
        None \<Rightarrow> ([], Inl (TypeError (Destructure ''playlist'') None))
      | Some a \<Rightarrow>
          (case replace_quotes ''playlist'' (a ''playlist'') of
             Inl e \<Rightarrow> ([], Inl e)
           | Inr safeName \<Rightarrow>
               (case ToString rt (Some (with_default (JNumber (Finite 50)) (a ''limit''))) of
                  Inl e \<Rightarrow> ([], Inl e)
                | Inr limitText \<Rightarrow>
                    returning (runAppleScriptMulti rt (script_get_playlist_tracks safeName limitText))
                      (\<lambda>result. ok result))))"

definition music_play_playlist :: "runtime \<Rightarrow> arguments option \<Rightarrow> tool_result effect" where
  "music_play_playlist rt args =
     (case args of
        None \<Rightarrow> ([], Inl (TypeError (Destructure ''playlist'') None))
      | Some a \<Rightarrow>
          (case replace_quotes ''playlist'' (a ''playlist'') of
             Inl e \<Rightarrow> ([], Inl e)
           | Inr safeName \<Rightarrow>
               let shuf = ToBoolean (Some (with_default (JBoolean False) (a ''shuffle''))) in
               returning (runAppleScriptMulti rt (script_play_playlist safeName shuf))
                 (\<lambda>result. ok result)))"

subsection \<open>Search and play\<close>

definition music_search_library :: "runtime \<Rightarrow> arguments option \<Rightarrow> tool_result effect" where
  "music_search_library rt args =
     (case args of
        None \<Rightarrow> ([], Inl (TypeError (Destructure ''query'') None))
      | Some a \<Rightarrow>
          let stype = with_default (JString ''all'') (a ''searchType'');
              limitText = ToString rt (Some (with_default (JNumber (Finite 20)) (a ''limit'')))
          in
          (case replace_quotes ''query'' (a ''query'') of
             Inl e \<Rightarrow> ([], Inl e)
           | Inr safeQuery \<Rightarrow>
               if stype = JString ''songs'' \<or> stype = JString ''all'' then
                 (case limitText of
                    Inl e \<Rightarrow> ([], Inl e)
                  | Inr l \<Rightarrow>
                      returning (runAppleScriptMulti rt (script_search_songs safeQuery l))
                        (\<lambda>result. ok result))
               else if stype = JString ''albums'' then
                 (case limitText of
                    Inl e \<Rightarrow> ([], Inl e)
                  | Inr l \<Rightarrow>
                      returning (runAppleScriptMulti rt (script_search_albums safeQuery l))
                        (\<lambda>result. ok result))
               else if stype = JString ''artists'' then
                 (case limitText of
                    Inl e \<Rightarrow> ([], Inl e)
                  | Inr l \<Rightarrow>
                      returning (runAppleScriptMulti rt (script_search_artists safeQuery l))
                        (\<lambda>result. ok result))
               else ([], Inr \<lparr>text = ''Invalid search type'', isError = True\<rparr>)))"

definition music_play_song :: "runtime \<Rightarrow> arguments option \<Rightarrow> tool_result effect" where
  "music_play_song rt args =
     (case args of
        None \<Rightarrow> ([], Inl (TypeError (Destructure ''song'') None))
      | Some a \<Rightarrow>
          (case replace_quotes ''song'' (a ''song'') of
             Inl e \<Rightarrow> ([], Inl e)
           | Inr safeSong \<Rightarrow>
               (case safe_optional ''artist'' (a ''artist'') of
                  Inl e \<Rightarrow> ([], Inl e)
                | Inr safeArtist \<Rightarrow>
                    returning (runAppleScriptMulti rt (script_play_song safeSong safeArtist))
                      (\<lambda>result. ok result))))"

definition music_play_album :: "runtime \<Rightarrow> arguments option \<Rightarrow> tool_result effect" where
  "music_play_album rt args =
     (case args of
        None \<Rightarrow> ([], Inl (TypeError (Destructure ''album'') None))
      | Some a \<Rightarrow>
          (case replace_quotes ''album'' (a ''album'') of
             Inl e \<Rightarrow> ([], Inl e)
           | Inr safeAlbum \<Rightarrow>
               (case safe_optional ''artist'' (a ''artist'') of
                  Inl e \<Rightarrow> ([], Inl e)
                | Inr safeArtist \<Rightarrow>
                    returning (runAppleScriptMulti rt (script_play_album safeAlbum safeArtist))
                      (\<lambda>result. ok result))))"

definition music_play_artist :: "runtime \<Rightarrow> arguments option \<Rightarrow> tool_result effect" where
  "music_play_artist rt args =
     (case args of
        None \<Rightarrow> ([], Inl (TypeError (Destructure ''artist'') None))
      | Some a \<Rightarrow>
          (case replace_quotes ''artist'' (a ''artist'') of
             Inl e \<Rightarrow> ([], Inl e)
           | Inr safeArtist \<Rightarrow>
               let shuf = ToBoolean (Some (with_default (JBoolean True) (a ''shuffle''))) in
               returning (runAppleScriptMulti rt (script_play_artist safeArtist shuf))
                 (\<lambda>result. ok result)))"

definition music_add_to_queue :: "runtime \<Rightarrow> arguments option \<Rightarrow> tool_result effect" where
  "music_add_to_queue rt args =
     (case args of
        None \<Rightarrow> ([], Inl (TypeError (Destructure ''song'') None))
      | Some a \<Rightarrow>
          (case replace_quotes ''song'' (a ''song'') of
             Inl e \<Rightarrow> ([], Inl e)
           | Inr safeSong \<Rightarrow>
               (case safe_optional ''artist'' (a ''artist'') of
                  Inl e \<Rightarrow> ([], Inl e)
                | Inr safeArtist \<Rightarrow>
                    returning (runAppleScriptMulti rt (script_add_to_queue safeSong safeArtist))
                      (\<lambda>result. ok result))))"

subsection \<open>Favorites and application control\<close>

definition music_love_track :: "runtime \<Rightarrow> tool_result effect" where
  "music_love_track rt =
     returning (runAppleScriptMulti rt script_love_track) (\<lambda>result. ok result)"

definition music_dislike_track :: "runtime \<Rightarrow> tool_result effect" where
  "music_dislike_track rt =
     returning (runAppleScriptMulti rt script_dislike_track) (\<lambda>result. ok result)"

definition music_open :: "runtime \<Rightarrow> tool_result effect" where
  \<open>music_open rt =
     returning (runAppleScript rt ''tell application "Music" to activate'')
       (\<lambda>_. ok ''Music app opened'')\<close>

definition music_quit :: "runtime \<Rightarrow> tool_result effect" where
  \<open>music_quit rt =
     returning (runAppleScript rt ''tell application "Music" to quit'')
       (\<lambda>_. ok ''Music app closed'')\<close>

subsection \<open>The default branch\<close>

definition default_case :: "string \<Rightarrow> tool_result effect" where
  "default_case name = ([], Inr \<lparr>text = ''Unknown tool: '' @ name, isError = True\<rparr>)"

section \<open>The call-tool handler\<close>

text \<open>The \<^verbatim>\<open>switch (name)\<close> inside the \<^verbatim>\<open>try\<close> block.\<close>

definition callTool_switch :: "runtime \<Rightarrow> string \<Rightarrow> arguments option \<Rightarrow> tool_result effect" where
  "callTool_switch rt name args =
     (if name = ''music_play'' then music_play rt
      else if name = ''music_pause'' then music_pause rt
      else if name = ''music_stop'' then music_stop rt
      else if name = ''music_next'' then music_next rt
      else if name = ''music_previous'' then music_previous rt
      else if name = ''music_toggle_playback'' then music_toggle_playback rt
      else if name = ''music_get_current_track'' then music_get_current_track rt
      else if name = ''music_get_player_state'' then music_get_player_state rt
      else if name = ''music_get_volume'' then music_get_volume rt
      else if name = ''music_set_volume'' then music_set_volume rt args
      else if name = ''music_get_position'' then music_get_position rt
      else if name = ''music_set_position'' then music_set_position rt args
      else if name = ''music_get_shuffle'' then music_get_shuffle rt
      else if name = ''music_set_shuffle'' then music_set_shuffle rt args
      else if name = ''music_get_repeat'' then music_get_repeat rt
      else if name = ''music_set_repeat'' then music_set_repeat rt args
      else if name = ''music_get_playlists'' then music_get_playlists rt
      else if name = ''music_get_playlist_tracks'' then music_get_playlist_tracks rt args
      else if name = ''music_play_playlist'' then music_play_playlist rt args
      else if name = ''music_search_library'' then music_search_library rt args
      else if name = ''music_play_song'' then music_play_song rt args
      else if name = ''music_play_album'' then music_play_album rt args
      else if name = ''music_play_artist'' then music_play_artist rt args
      else if name = ''music_add_to_queue'' then music_add_to_queue rt args
      else if name = ''music_love_track'' then music_love_track rt
      else if name = ''music_dislike_track'' then music_dislike_track rt
      else if name = ''music_open'' then music_open rt
      else if name = ''music_quit'' then music_quit rt
      else default_case name)"

text \<open>
  The handler: the \<^verbatim>\<open>catch\<close> turns whatever the switch throws into an error result. Its
  value is the list of commands handed to the executor and the result returned to the
  caller.
\<close>

definition callTool :: "runtime \<Rightarrow> string \<Rightarrow> arguments option \<Rightarrow> string list \<times> tool_result" where
  "callTool rt name args =
     (case callTool_switch rt name args of
        (commands, Inr result) \<Rightarrow> (commands, result)
      | (commands, Inl error) \<Rightarrow>
          (commands, \<lparr>text = ''Error: '' @ message rt error, isError = True\<rparr>))"

section \<open>The tool registry\<close>

text \<open>The descriptors returned by the list-tools handler, in its order.\<close>

record property =
  prop_name :: string
  prop_type :: string
  prop_description :: string
  prop_enum :: "string list option"
  prop_minimum :: "int option"
  prop_maximum :: "int option"

record tool_descriptor =
  tool_name :: string
  tool_description :: string
  properties :: "property list"
  required :: "string list"

definition listTools :: "tool_descriptor list" where
  "listTools =
    [\<lparr>tool_name = ''music_play'',
      tool_description = ''Start playing music or resume playback'',
      properties = [],
      required = []\<rparr>,
     \<lparr>tool_name = ''music_pause'',
      tool_description = ''Pause playback'',
      properties = [],
      required = []\<rparr>,
     \<lparr>tool_name = ''music_stop'',
      tool_description = ''Stop playback'',
      properties = [],
      required = []\<rparr>,
     \<lparr>tool_name = ''music_next'',
      tool_description = ''Skip to the next track'',
      properties = [],
      required = []\<rparr>,
     \<lparr>tool_name = ''music_previous'',
      tool_description = ''Go to the previous track'',
      properties = [],
      required = []\<rparr>,
     \<lparr>tool_name = ''music_toggle_playback'',
      tool_description = ''Toggle between play and pause'',
      properties = [],
      required = []\<rparr>,
     \<lparr>tool_name = ''music_get_current_track'',
      tool_description = ''Get information about the currently playing track'',
      properties = [],
      required = []\<rparr>,
     \<lparr>tool_name = ''music_get_player_state'',
      tool_description = ''Get the current player state (playing, paused, stopped)'',
      properties = [],
      required = []\<rparr>,
     \<lparr>tool_name = ''music_get_volume'',
      tool_description = ''Get the current volume level (0-100)'',
      properties = [],
      required = []\<rparr>,
     \<lparr>tool_name = ''music_set_volume'',
      tool_description = ''Set the volume level (0-100)'',
      properties =
         [\<lparr>prop_name = ''volume'', prop_type = ''number'',
           prop_description = ''Volume level (0-100)'',
           prop_enum = None, prop_minimum = Some 0, prop_maximum = Some 100\<rparr>],
      required = [''volume'']\<rparr>,
     \<lparr>tool_name = ''music_get_position'',
      tool_description = ''Get the current playback position in seconds'',
      properties = [],
      required = []\<rparr>,
     \<lparr>tool_name = ''music_set_position'',
      tool_description = ''Set the playback position in seconds'',
      properties =
         [\<lparr>prop_name = ''position'', prop_type = ''number'',
           prop_description = ''Position in seconds'',
           prop_enum = None, prop_minimum = None, prop_maximum = None\<rparr>],
      required = [''position'']\<rparr>,
     \<lparr>tool_name = ''music_get_shuffle'',
      tool_description = ''Get the shuffle state'',
      properties = [],
      required = []\<rparr>,
     \<lparr>tool_name = ''music_set_shuffle'',
      tool_description = ''Set shuffle on or off'',
      properties =
         [\<lparr>prop_name = ''enabled'', prop_type = ''boolean'',
           prop_description = ''Enable or disable shuffle'',
           prop_enum = None, prop_minimum = None, prop_maximum = None\<rparr>],
      required = [''enabled'']\<rparr>,
     \<lparr>tool_name = ''music_get_repeat'',
      tool_description = ''Get the repeat mode (off, one, all)'',
      properties = [],
      required = []\<rparr>,
     \<lparr>tool_name = ''music_set_repeat'',
      tool_description = ''Set the repeat mode'',
      properties =
         [\<lparr>prop_name = ''mode'', prop_type = ''string'',
           prop_description = ''Repeat mode: off, one (repeat track), or all (repeat playlist)'',
           prop_enum = Some [''off'', ''one'', ''all''], prop_minimum = None, prop_maximum = None\<rparr>],
      required = [''mode'']\<rparr>,
     \<lparr>tool_name = ''music_get_playlists'',
      tool_description = ''Get all playlists'',
      properties = [],
      required = []\<rparr>,
     \<lparr>tool_name = ''music_get_playlist_tracks'',
      tool_description = ''Get tracks in a specific playlist'',
      properties =
         [\<lparr>prop_name = ''playlist'', prop_type = ''string'',
           prop_description = ''Playlist name'',
           prop_enum = None, prop_minimum = None, prop_maximum = None\<rparr>,
          \<lparr>prop_name = ''limit'', prop_type = ''number'',
           prop_description = ''Maximum number of tracks to return (default: 50)'',
           prop_enum = None, prop_minimum = None, prop_maximum = None\<rparr>],
      required = [''playlist'']\<rparr>,
     \<lparr>tool_name = ''music_play_playlist'',
      tool_description = ''Play a specific playlist'',
      properties =
         [\<lparr>prop_name = ''playlist'', prop_type = ''string'',
           prop_description = ''Playlist name'',
           prop_enum = None, prop_minimum = None, prop_maximum = None\<rparr>,
          \<lparr>prop_name = ''shuffle'', prop_type = ''boolean'',
           prop_description = ''Shuffle the playlist (default: false)'',
           prop_enum = None, prop_minimum = None, prop_maximum = None\<rparr>],
      required = [''playlist'']\<rparr>,
     \<lparr>tool_name = ''music_search_library'',
      tool_description = ''Search the music library for songs, albums, or artists'',
      properties =
         [\<lparr>prop_name = ''query'', prop_type = ''string'',
           prop_description = ''Search query'',
           prop_enum = None, prop_minimum = None, prop_maximum = None\<rparr>,
          \<lparr>prop_name = ''searchType'', prop_type = ''string'',
           prop_description = ''Type of search (default: all)'',
           prop_enum = Some [''songs'', ''albums'', ''artists'', ''all''], prop_minimum = None, prop_maximum = None\<rparr>,
          \<lparr>prop_name = ''limit'', prop_type = ''number'',
           prop_description = ''Maximum number of results (default: 20)'',
           prop_enum = None, prop_minimum = None, prop_maximum = None\<rparr>],
      required = [''query'']\<rparr>,
     \<lparr>tool_name = ''music_play_song'',
      tool_description = ''Play a specific song by name'',
      properties =
         [\<lparr>prop_name = ''song'', prop_type = ''string'',
           prop_description = ''Song name to play'',
           prop_enum = None, prop_minimum = None, prop_maximum = None\<rparr>,
          \<lparr>prop_name = ''artist'', prop_type = ''string'',
           prop_description = ''Artist name (optional, helps find the right song)'',
           prop_enum = None, prop_minimum = None, prop_maximum = None\<rparr>],
      required = [''song'']\<rparr>,
     \<lparr>tool_name = ''music_play_album'',
      tool_description = ''Play a specific album'',
      properties =
         [\<lparr>prop_name = ''album'', prop_type = ''string'',
           prop_description = ''Album name'',
           prop_enum = None, prop_minimum = None, prop_maximum = None\<rparr>,
          \<lparr>prop_name = ''artist'', prop_type = ''string'',
           prop_description = ''Artist name (optional)'',
           prop_enum = None, prop_minimum = None, prop_maximum = None\<rparr>],
      required = [''album'']\<rparr>,
     \<lparr>tool_name = ''music_play_artist'',
      tool_description = ''Play songs by a specific artist'',
      properties =
         [\<lparr>prop_name = ''artist'', prop_type = ''string'',
           prop_description = ''Artist name'',
           prop_enum = None, prop_minimum = None, prop_maximum = None\<rparr>,
          \<lparr>prop_name = ''shuffle'', prop_type = ''boolean'',
           prop_description = ''Shuffle the songs (default: true)'',
           prop_enum = None, prop_minimum = None, prop_maximum = None\<rparr>],
      required = [''artist'']\<rparr>,
     \<lparr>tool_name = ''music_add_to_queue'',
      tool_description = ''Add a song to the play queue'',
      properties =
         [\<lparr>prop_name = ''song'', prop_type = ''string'',
           prop_description = ''Song name to add'',
           prop_enum = None, prop_minimum = None, prop_maximum = None\<rparr>,
          \<lparr>prop_name = ''artist'', prop_type = ''string'',
           prop_description = ''Artist name (optional)'',
           prop_enum = None, prop_minimum = None, prop_maximum = None\<rparr>],
      required = [''song'']\<rparr>,
     \<lparr>tool_name = ''music_love_track'',
      tool_description = ''Love (favorite) the current track'',
      properties = [],
      required = []\<rparr>,
     \<lparr>tool_name = ''music_dislike_track'',
      tool_description = ''Dislike the current track'',
      properties = [],
      required = []\<rparr>,
     \<lparr>tool_name = ''music_open'',
      tool_description = ''Open the Music app'',
      properties = [],
      required = []\<rparr>,
     \<lparr>tool_name = ''music_quit'',
      tool_description = ''Quit the Music app'',
      properties = [],
      required = []\<rparr>]"


section \<open>Quoting inside a double-quoted literal\<close>

text \<open>
  Inside a double-quoted literal, of the shell and of AppleScript alike, a backslash takes
  the next character with it, and a double quote that no backslash takes ends the literal.
  \<open>unescaped_quote\<close> scans the inside of a literal for such a quote.
\<close>

fun unescaped_quote :: "string \<Rightarrow> bool" where
  "unescaped_quote [] = False"
| "unescaped_quote [c] = (c = dq)"
| "unescaped_quote (c # d # cs) =
     (if c = bs then unescaped_quote cs
      else if c = dq then True
      else unescaped_quote (d # cs))"

text \<open>
  What the shell reads from the inside of a double-quoted word in which only backslashes
  and double quotes are escaped: a backslash is dropped and the next character kept.
\<close>

fun unescape :: "string \<Rightarrow> string" where
  "unescape [] = []"
| "unescape [c] = [c]"
| "unescape (c # d # cs) = (if c = bs then d # unescape cs else c # unescape (d # cs))"

text \<open>The number that a decimal numeral denotes.\<close>

definition numeral_value :: "string \<Rightarrow> nat" where
  "numeral_value s = foldl (\<lambda>v c. 10 * v + (of_char c - 48)) 0 s"

text \<open>
  A computation surfaces the failures of the executor when the failure of a command it
  handed over is what it throws, under the helpers' prefix.
\<close>

definition surfaces_failure :: "runtime \<Rightarrow> 'a effect \<Rightarrow> bool" where
  "surfaces_failure rt e =
     (\<forall>command err. command \<in> set (fst e) \<and> execSync rt command = Inl err \<longrightarrow>
        snd e = Inl (Error (''AppleScript error: '' @ stderr_or_message err)))"

section \<open>Sample inputs\<close>

definition no_arguments :: arguments where
  "no_arguments = (\<lambda>_. None)"

text \<open>
  The wording of the engine for the three kinds of \<^verbatim>\<open>TypeError\<close>, and the other engine
  parameters of the sample runtimes: what the engine gives for a plain object and for a
  string that is no numeral. The samples are run on integers below \<open>2^53\<close> only, so their
  printing of other numbers is a placeholder.
\<close>

definition engine_wording :: "site \<Rightarrow> json option \<Rightarrow> string" where
  "engine_wording s v =
     (case s of
        ReadProperty p \<Rightarrow>
          ''Cannot read properties of undefined (reading '' @ [sq] @ p @ [sq] @ '')''
      | Destructure p \<Rightarrow>
          ''Cannot destructure property '' @ [sq] @ p @ [sq] @ '' of '' @ [sq] @ ''args'' @ [sq]
            @ '' as it is undefined.''
      | CallReplace x \<Rightarrow>
          (case v of
             None \<Rightarrow> ''Cannot read properties of undefined (reading '' @ [sq] @ ''replace'' @ [sq] @ '')''
           | Some JNull \<Rightarrow>
               ''Cannot read properties of null (reading '' @ [sq] @ ''replace'' @ [sq] @ '')''
           | Some _ \<Rightarrow> x @ ''.replace is not a function''))"

text \<open>A runtime whose commands all succeed and print nothing.\<close>

definition quiet_runtime :: runtime where
  "quiet_runtime =
     \<lparr>execSync = (\<lambda>_. Inr []),
      typeErrorMessage = engine_wording,
      numberToString = (\<lambda>_. ''?''),
      stringToNumber = (\<lambda>_. NaN),
      objectToString = (\<lambda>_. Inr ''[object Object]''),
      objectToNumber = (\<lambda>_. Inr NaN)\<rparr>"

text \<open>A runtime whose commands all fail, with a message on the standard error stream.\<close>

definition failing_runtime :: runtime where
  "failing_runtime =
     \<lparr>execSync =
        (\<lambda>_. Inl \<lparr>stderr = Some ''AppleScript execution error: Music is not running'',
                   failure_message = ''Command failed''\<rparr>),
      typeErrorMessage = engine_wording,
      numberToString = (\<lambda>_. ''?''),
      stringToNumber = (\<lambda>_. NaN),
      objectToString = (\<lambda>_. Inr ''[object Object]''),
      objectToNumber = (\<lambda>_. Inr NaN)\<rparr>"

section \<open>Basic facts\<close>

lemma tool_names:
  "map tool_name listTools =
    [''music_play'', ''music_pause'', ''music_stop'', ''music_next'', ''music_previous'',
     ''music_toggle_playback'', ''music_get_current_track'', ''music_get_player_state'',
     ''music_get_volume'', ''music_set_volume'', ''music_get_position'', ''music_set_position'',
     ''music_get_shuffle'', ''music_set_shuffle'', ''music_get_repeat'', ''music_set_repeat'',
     ''music_get_playlists'', ''music_get_playlist_tracks'', ''music_play_playlist'',
     ''music_search_library'', ''music_play_song'', ''music_play_album'', ''music_play_artist'',
     ''music_add_to_queue'', ''music_love_track'', ''music_dislike_track'', ''music_open'',
     ''music_quit'']"
  by (simp add: listTools_def)

text \<open>A branch that runs one script hands over exactly one command.\<close>

lemma returning_single:
  "returning (runAppleScript rt s) f =
     ([single_quoted_command s],
      case execSync rt (single_quoted_command s) of
        Inl err \<Rightarrow> Inl (Error (''AppleScript error: '' @ stderr_or_message err))
      | Inr out \<Rightarrow> Inr (f (trim out)))"
  by (simp add: returning_def runAppleScript_def Let_def split: sum.splits)

lemma returning_checked_single:
  "returning_checked (runAppleScript rt s) f =
     ([single_quoted_command s],
      case execSync rt (single_quoted_command s) of
        Inl err \<Rightarrow> Inl (Error (''AppleScript error: '' @ stderr_or_message err))
      | Inr out \<Rightarrow> f (trim out))"
  by (simp add: returning_checked_def runAppleScript_def Let_def split: sum.splits)

lemma returning_multi:
  "returning (runAppleScriptMulti rt s) f =
     ([double_quoted_command s],
      case execSync rt (double_quoted_command s) of
        Inl err \<Rightarrow> Inl (Error (''AppleScript error: '' @ stderr_or_message err))
      | Inr out \<Rightarrow> Inr (f (trim out)))"
  by (simp add: returning_def runAppleScriptMulti_def Let_def split: sum.splits)

lemma fst_callTool: "fst (callTool rt name args) = fst (callTool_switch rt name args)"
  by (simp add: callTool_def split: prod.split sum.split)

lemmas branch_defs =
  music_play_def music_pause_def music_stop_def music_next_def music_previous_def
  music_toggle_playback_def music_get_current_track_def music_get_player_state_def
  music_get_volume_def music_set_volume_def music_get_position_def music_set_position_def
  music_get_shuffle_def music_set_shuffle_def music_get_repeat_def music_set_repeat_def
  music_get_playlists_def music_get_playlist_tracks_def music_play_playlist_def
  music_search_library_def music_play_song_def music_play_album_def music_play_artist_def
  music_add_to_queue_def music_love_track_def music_dislike_track_def music_open_def
  music_quit_def

section \<open>Unknown tools\<close>

lemma unregistered_default:
  assumes "name \<notin> set (map tool_name listTools)"
  shows "callTool_switch rt name args = default_case name"
  using assms unfolding tool_names callTool_switch_def by simp

text \<open>
  Claim C5. A tool name that is not among the 28 registered names yields the error result
  with the text \<open>Unknown tool: <name>\<close>, and no command is handed to the executor,
  whatever the arguments and the runtime.
\<close>

theorem unknown_tool_result:
  assumes "name \<notin> set (map tool_name listTools)"
  shows "callTool rt name args =
           ([], \<lparr>text = ''Unknown tool: '' @ name, isError = True\<rparr>)"
  using unregistered_default [OF assms] by (simp add: callTool_def default_case_def)

theorem unknown_tool_result_witness:
  "''unknown_tool'' \<notin> set (map tool_name listTools) \<and>
   callTool failing_runtime ''unknown_tool'' (Some no_arguments) =
     ([], \<lparr>text = ''Unknown tool: unknown_tool'', isError = True\<rparr>)"
proof -
  have h: "''unknown_tool'' \<notin> set (map tool_name listTools)"
    unfolding tool_names by simp
  from unknown_tool_result [OF h] show ?thesis using h by simp
qed

section \<open>Registry and dispatcher\<close>

lemma registered_not_default:
  assumes "name \<in> set (map tool_name listTools)"
  shows "callTool_switch rt name args \<noteq> default_case name"
  using assms unfolding tool_names
  apply (simp only: set_simps insert_iff empty_iff)
  apply (elim disjE)
  apply (simp_all add: callTool_switch_def default_case_def returning_single returning_multi
       returning_checked_single branch_defs Let_def split: option.splits sum.splits)
  done

lemma registered_once:
  assumes "name \<in> set (map tool_name listTools)"
  shows "count_list (map tool_name listTools) name = 1"
  using assms unfolding tool_names
  apply (simp only: set_simps insert_iff empty_iff)
  apply (elim disjE)
  apply simp_all
  done

lemma registry_size: "length listTools = 28"
proof -
  have "length (map tool_name listTools) = 28" unfolding tool_names by simp
  then show ?thesis by simp
qed

text \<open>
  Claim C7. The registry has 28 descriptors; every registered name reaches a branch of the
  switch other than the default one, for every runtime and arguments; and every name that
  reaches such a branch occurs in the registry exactly once.
\<close>

theorem registry_dispatch_round_trip:
  "length listTools = 28 \<and>
   (\<forall>name \<in> set (map tool_name listTools).
      \<forall>rt args. callTool_switch rt name args \<noteq> default_case name) \<and>
   (\<forall>name rt args. callTool_switch rt name args \<noteq> default_case name \<longrightarrow>
      count_list (map tool_name listTools) name = 1)"
proof (intro conjI ballI allI impI)
  show "length listTools = 28" by (rule registry_size)
next
  fix name rt args
  assume "name \<in> set (map tool_name listTools)"
  then show "callTool_switch rt name args \<noteq> default_case name"
    by (rule registered_not_default)
next
  fix name rt args
  assume h: "callTool_switch rt name args \<noteq> default_case name"
  have "name \<in> set (map tool_name listTools)"
  proof (rule ccontr)
    assume "name \<notin> set (map tool_name listTools)"
    from unregistered_default [OF this] h show False by simp
  qed
  then show "count_list (map tool_name listTools) name = 1"
    by (rule registered_once)
qed

theorem registry_dispatch_round_trip_witness:
  "''music_play'' \<in> set (map tool_name listTools) \<and>
   callTool_switch quiet_runtime ''music_play'' None \<noteq> default_case ''music_play'' \<and>
   count_list (map tool_name listTools) ''music_play'' = 1"
proof -
  have m: "''music_play'' \<in> set (map tool_name listTools)"
    unfolding tool_names by simp
  from registry_dispatch_round_trip m
  have a: "callTool_switch quiet_runtime ''music_play'' None \<noteq> default_case ''music_play''"
    by blast
  with registry_dispatch_round_trip
  have "count_list (map tool_name listTools) ''music_play'' = 1" by blast
  with m a show ?thesis by simp
qed

section \<open>Volume\<close>

lemma switch_set_volume:
  "callTool_switch rt ''music_set_volume'' args = music_set_volume rt args"
  by (simp add: callTool_switch_def)

lemma Number_toString_int:
  assumes "\<bar>i\<bar> < 2 ^ 53"
  shows "Number_toString rt (Finite (of_int i)) = decimal i"
proof -
  have "\<bar>of_int i :: rat\<bar> = of_int \<bar>i\<bar>" by simp
  also have "\<dots> < of_int (2 ^ 53)" using assms by (simp only: of_int_less_iff)
  finally have "\<bar>of_int i :: rat\<bar> < 2 ^ 53" by simp
  then show ?thesis by (simp add: Number_toString_def)
qed

lemma clamp_volume_Finite: "clamp_volume (Finite q) = Finite (max 0 (min 100 q))"
  by (simp add: clamp_volume_def Math_max_def Math_min_def)

lemma clamp_volume_int:
  "clamp_volume (Finite (of_int v)) = Finite (of_int (max 0 (min 100 v)))"
proof -
  have "max 0 (min 100 (of_int v :: rat)) = of_int (max 0 (min 100 v))"
    by (simp add: max_def min_def)
  then show ?thesis by (simp add: clamp_volume_Finite)
qed

lemma clamped_printed:
  "Number_toString rt (clamp_volume (Finite (of_int v))) = decimal (max 0 (min 100 v))"
proof -
  have "\<bar>max 0 (min 100 v)\<bar> < 2 ^ 53" by (simp add: max_def min_def)
  from Number_toString_int [OF this] show ?thesis by (simp only: clamp_volume_int)
qed

lemma set_volume_number:
  assumes "a ''volume'' = Some (JNumber n)"
  shows \<open>callTool rt ''music_set_volume'' (Some a) =
           ([single_quoted_command
               (''tell application "Music" to set sound volume to ''
                  @ Number_toString rt (clamp_volume n))],
            case execSync rt
                   (single_quoted_command
                      (''tell application "Music" to set sound volume to ''
                         @ Number_toString rt (clamp_volume n))) of
              Inl err \<Rightarrow>
                \<lparr>text = ''Error: AppleScript error: '' @ stderr_or_message err, isError = True\<rparr>
            | Inr out \<Rightarrow>
                \<lparr>text = ''Volume set to '' @ Number_toString rt (clamp_volume n) @ ''%'',
                 isError = False\<rparr>)\<close>
  using assms
  by (simp add: callTool_def switch_set_volume music_set_volume_def returning_single
      ToNumber_def ok_def message_def Let_def split: sum.splits)

text \<open>
  Claim C4. For every integer volume \<open>v\<close>, the set-volume branch hands the executor the
  command that sets the sound volume to \<open>max 0 (min 100 v)\<close>, and when that command succeeds
  it returns the non-error text \<open>Volume set to <clamped>%\<close>. At \<open>-10\<close> the clamped volume is
  \<open>0\<close> and at \<open>150\<close> it is \<open>100\<close>. For every number, an integer or not, the command and
  the text hold the print of \<^verbatim>\<open>Math.max(0, Math.min(100, v))\<close>, which for a finite \<open>v\<close> is
  \<open>max 0 (min 100 v)\<close>.
\<close>

theorem set_volume_clamps:
  \<open>(\<forall>v. a ''volume'' = Some (JNumber (Finite (of_int v))) \<longrightarrow>
      fst (callTool rt ''music_set_volume'' (Some a)) =
        [single_quoted_command
           (''tell application "Music" to set sound volume to '' @ decimal (max 0 (min 100 v)))] \<and>
      (\<forall>out. execSync rt
               (single_quoted_command
                  (''tell application "Music" to set sound volume to ''
                     @ decimal (max 0 (min 100 v)))) = Inr out \<longrightarrow>
         snd (callTool rt ''music_set_volume'' (Some a)) =
           \<lparr>text = ''Volume set to '' @ decimal (max 0 (min 100 v)) @ ''%'',
            isError = False\<rparr>)) \<and>
   (\<forall>n. a ''volume'' = Some (JNumber n) \<longrightarrow>
      fst (callTool rt ''music_set_volume'' (Some a)) =
        [single_quoted_command
           (''tell application "Music" to set sound volume to ''
              @ Number_toString rt (Math_max (Finite 0) (Math_min (Finite 100) n)))] \<and>
      (\<forall>out. execSync rt
               (single_quoted_command
                  (''tell application "Music" to set sound volume to ''
                     @ Number_toString rt (Math_max (Finite 0) (Math_min (Finite 100) n))))
               = Inr out \<longrightarrow>
         snd (callTool rt ''music_set_volume'' (Some a)) =
           \<lparr>text = ''Volume set to ''
                    @ Number_toString rt (Math_max (Finite 0) (Math_min (Finite 100) n)) @ ''%'',
            isError = False\<rparr>)) \<and>
   (\<forall>q. Math_max (Finite 0) (Math_min (Finite 100) (Finite q)) = Finite (max 0 (min 100 q)))\<close>
proof (intro conjI allI impI)
  fix v
  assume v: "a ''volume'' = Some (JNumber (Finite (of_int v)))"
  note E = set_volume_number [where a = a and rt = rt and n = "Finite (of_int v)", OF v]
  show \<open>fst (callTool rt ''music_set_volume'' (Some a)) =
        [single_quoted_command
           (''tell application "Music" to set sound volume to '' @ decimal (max 0 (min 100 v)))]\<close>
    by (simp add: E clamped_printed)
  fix out
  assume \<open>execSync rt
               (single_quoted_command
                  (''tell application "Music" to set sound volume to ''
                     @ decimal (max 0 (min 100 v)))) = Inr out\<close>
  then show \<open>snd (callTool rt ''music_set_volume'' (Some a)) =
           \<lparr>text = ''Volume set to '' @ decimal (max 0 (min 100 v)) @ ''%'',
            isError = False\<rparr>\<close>
    by (simp add: E clamped_printed)
next
  fix n
  assume n: "a ''volume'' = Some (JNumber n)"
  note F = set_volume_number [where a = a and rt = rt and n = n, OF n]
  show \<open>fst (callTool rt ''music_set_volume'' (Some a)) =
        [single_quoted_command
           (''tell application "Music" to set sound volume to ''
              @ Number_toString rt (Math_max (Finite 0) (Math_min (Finite 100) n)))]\<close>
    by (simp add: F clamp_volume_def)
  fix out
  assume \<open>execSync rt
               (single_quoted_command
                  (''tell application "Music" to set sound volume to ''
                     @ Number_toString rt (Math_max (Finite 0) (Math_min (Finite 100) n))))
               = Inr out\<close>
  then show \<open>snd (callTool rt ''music_set_volume'' (Some a)) =
           \<lparr>text = ''Volume set to ''
                    @ Number_toString rt (Math_max (Finite 0) (Math_min (Finite 100) n)) @ ''%'',
            isError = False\<rparr>\<close>
    by (simp add: F clamp_volume_def)
next
  fix q :: rat
  show "Math_max (Finite 0) (Math_min (Finite 100) (Finite q)) = Finite (max 0 (min 100 q))"
    using clamp_volume_Finite [of q] by (simp add: clamp_volume_def)
qed

lemma decimal_0: "decimal 0 = ''0''"
  by (simp add: decimal_def digits.simps)

lemma decimal_100: "decimal 100 = ''100''"
  by (simp add: decimal_def digits.simps)

theorem set_volume_clamps_witness:
  \<open>(no_arguments(''volume'' \<mapsto> JNumber (Finite (of_int (- 10))))) ''volume'' =
     Some (JNumber (Finite (of_int (- 10)))) \<and>
   callTool quiet_runtime ''music_set_volume''
     (Some (no_arguments(''volume'' \<mapsto> JNumber (Finite (of_int (- 10)))))) =
     ([''osascript -e '' @ [sq] @ ''tell application "Music" to set sound volume to 0'' @ [sq]],
      \<lparr>text = ''Volume set to 0%'', isError = False\<rparr>) \<and>
   (no_arguments(''volume'' \<mapsto> JNumber (Finite (of_int 150)))) ''volume'' =
     Some (JNumber (Finite (of_int 150))) \<and>
   callTool quiet_runtime ''music_set_volume''
     (Some (no_arguments(''volume'' \<mapsto> JNumber (Finite (of_int 150))))) =
     ([''osascript -e '' @ [sq] @ ''tell application "Music" to set sound volume to 100'' @ [sq]],
      \<lparr>text = ''Volume set to 100%'', isError = False\<rparr>)\<close>
proof -
  define a where "a = no_arguments(''volume'' \<mapsto> JNumber (Finite (of_int (- 10))))"
  define b where "b = no_arguments(''volume'' \<mapsto> JNumber (Finite (of_int 150)))"
  have lo: "a ''volume'' = Some (JNumber (Finite (of_int (- 10))))" by (simp add: a_def)
  have hi: "b ''volume'' = Some (JNumber (Finite (of_int 150)))" by (simp add: b_def)
  have q: "execSync quiet_runtime c = Inr []" for c by (simp add: quiet_runtime_def)
  note A = set_volume_clamps [of a quiet_runtime, THEN conjunct1, THEN spec, of "- 10",
      THEN mp, OF lo]
  note B = set_volume_clamps [of b quiet_runtime, THEN conjunct1, THEN spec, of 150,
      THEN mp, OF hi]
  have 1: \<open>callTool quiet_runtime ''music_set_volume'' (Some a) =
     ([''osascript -e '' @ [sq] @ ''tell application "Music" to set sound volume to 0'' @ [sq]],
      \<lparr>text = ''Volume set to 0%'', isError = False\<rparr>)\<close>
    using A [THEN conjunct1] A [THEN conjunct2, rule_format, OF q]
    by (simp add: prod_eq_iff decimal_0 single_quoted_command_def replace_global_def)
  have 2: \<open>callTool quiet_runtime ''music_set_volume'' (Some b) =
     ([''osascript -e '' @ [sq] @ ''tell application "Music" to set sound volume to 100'' @ [sq]],
      \<lparr>text = ''Volume set to 100%'', isError = False\<rparr>)\<close>
    using B [THEN conjunct1] B [THEN conjunct2, rule_format, OF q]
    by (simp add: prod_eq_iff decimal_100 single_quoted_command_def replace_global_def)
  from lo 1 hi 2 show ?thesis unfolding a_def b_def by (intro conjI)
qed

section \<open>Repeat mode\<close>

lemma switch_set_repeat:
  "callTool_switch rt ''music_set_repeat'' args = music_set_repeat rt args"
  by (simp add: callTool_switch_def)

lemma set_repeat_result:
  \<open>callTool rt ''music_set_repeat'' (Some a) =
     ([single_quoted_command
         (''tell application "Music" to set song repeat to '' @ repeatValue (a ''mode''))],
      case execSync rt
             (single_quoted_command
                (''tell application "Music" to set song repeat to '' @ repeatValue (a ''mode''))) of
        Inl err \<Rightarrow>
          \<lparr>text = ''Error: AppleScript error: '' @ stderr_or_message err, isError = True\<rparr>
      | Inr out \<Rightarrow>
          (case ToString rt (a ''mode'') of
             Inl e \<Rightarrow> \<lparr>text = ''Error: '' @ message rt e, isError = True\<rparr>
           | Inr m \<Rightarrow> \<lparr>text = ''Repeat mode set to '' @ m, isError = False\<rparr>))\<close>
  by (simp add: callTool_def switch_set_repeat music_set_repeat_def returning_checked_single
      ok_def message_def split: sum.splits)

text \<open>
  Claim C10. For every string \<open>m\<close> given as the repeat mode, the token put into the command is
  one of \<open>off\<close>, \<open>one\<close>, \<open>all\<close>: it is \<open>all\<close> unless \<open>m\<close> is \<open>off\<close> or \<open>one\<close>. The
  command is built from that token only, and the success text repeats \<open>m\<close> itself.
\<close>

theorem set_repeat_token_closed:
  assumes "a ''mode'' = Some (JString m)"
  shows \<open>repeatValue (a ''mode'') \<in> {''off'', ''one'', ''all''} \<and>
         repeatValue (a ''mode'') =
           (if m = ''off'' then ''off'' else if m = ''one'' then ''one'' else ''all'') \<and>
         fst (callTool rt ''music_set_repeat'' (Some a)) =
           [single_quoted_command
              (''tell application "Music" to set song repeat to '' @ repeatValue (a ''mode''))] \<and>
         (\<forall>out. execSync rt
                  (single_quoted_command
                     (''tell application "Music" to set song repeat to ''
                        @ repeatValue (a ''mode''))) = Inr out \<longrightarrow>
            snd (callTool rt ''music_set_repeat'' (Some a)) =
              \<lparr>text = ''Repeat mode set to '' @ m, isError = False\<rparr>)\<close>
  using assms
  by (simp add: set_repeat_result repeatValue_def ToString_def)

theorem set_repeat_token_closed_witness:
  \<open>(no_arguments(''mode'' \<mapsto> JString ''shuffle'')) ''mode'' = Some (JString ''shuffle'') \<and>
   repeatValue (Some (JString ''shuffle'')) = ''all'' \<and>
   callTool quiet_runtime ''music_set_repeat''
     (Some (no_arguments(''mode'' \<mapsto> JString ''shuffle''))) =
     ([''osascript -e '' @ [sq] @ ''tell application "Music" to set song repeat to all'' @ [sq]],
      \<lparr>text = ''Repeat mode set to shuffle'', isError = False\<rparr>)\<close>
proof -
  define a where "a = no_arguments(''mode'' \<mapsto> JString ''shuffle'')"
  have m: "a ''mode'' = Some (JString ''shuffle'')" by (simp add: a_def)
  have q: "execSync quiet_runtime c = Inr []" for c by (simp add: quiet_runtime_def)
  note T = set_repeat_token_closed [where a = a and m = "''shuffle''" and rt = quiet_runtime,
      OF m]
  have r: "repeatValue (Some (JString ''shuffle'')) = ''all''"
    using T [THEN conjunct2, THEN conjunct1] by (simp add: m)
  have c: \<open>callTool quiet_runtime ''music_set_repeat'' (Some a) =
     ([''osascript -e '' @ [sq] @ ''tell application "Music" to set song repeat to all'' @ [sq]],
      \<lparr>text = ''Repeat mode set to shuffle'', isError = False\<rparr>)\<close>
    using T [THEN conjunct2, THEN conjunct2, THEN conjunct1]
      T [THEN conjunct2, THEN conjunct2, THEN conjunct2, rule_format, OF q]
    by (simp add: prod_eq_iff m r single_quoted_command_def replace_global_def)
  from m r c show ?thesis unfolding a_def by (intro conjI)
qed

text \<open>
  Claim C3 says that a repeat mode outside \<open>off\<close>, \<open>one\<close>, \<open>all\<close> is rejected with an error
  result and that no command runs. The mode \<open>shuffle\<close> is outside the enumeration, yet the
  result is not an error and a command is handed to the executor.
\<close>

theorem set_repeat_rejects_counterexample:
  \<open>''shuffle'' \<notin> {''off'', ''one'', ''all''} \<and>
   \<not> isError (snd (callTool quiet_runtime ''music_set_repeat''
                      (Some (no_arguments(''mode'' \<mapsto> JString ''shuffle''))))) \<and>
   fst (callTool quiet_runtime ''music_set_repeat''
          (Some (no_arguments(''mode'' \<mapsto> JString ''shuffle'')))) =
     [''osascript -e '' @ [sq] @ ''tell application "Music" to set song repeat to all'' @ [sq]]\<close>
  by (simp add: set_repeat_result repeatValue_def ToString_def quiet_runtime_def
      single_quoted_command_def replace_global_def)

lemma ToString_primitive:
  "ToString rt (Some JNull) = Inr ''null''"
  "ToString rt (Some (JBoolean b)) = Inr (if b then ''true'' else ''false'')"
  "ToString rt (Some (JNumber n)) = Inr (Number_toString rt n)"
  "ToString rt (Some (JString s)) = Inr s"
  by (simp_all add: ToString_def)

text \<open>
  Claim C3, amended. A repeat mode outside the enumeration is neither rejected nor
  forwarded: the branch hands the executor the command that sets the repeat mode to
  \<open>all\<close>, and when that command succeeds the result is not an error. This holds for every
  mode that prints, as every string, number, boolean and null does.
\<close>

theorem set_repeat_normalises:
  assumes "a ''mode'' = Some v"
    and "v \<notin> {JString ''off'', JString ''one'', JString ''all''}"
    and "ToString rt (Some v) = Inr t"
  shows \<open>fst (callTool rt ''music_set_repeat'' (Some a)) =
           [single_quoted_command ''tell application "Music" to set song repeat to all''] \<and>
         (\<forall>out. execSync rt
                  (single_quoted_command
                     ''tell application "Music" to set song repeat to all'') = Inr out \<longrightarrow>
            \<not> isError (snd (callTool rt ''music_set_repeat'' (Some a)))) \<and>
         (\<forall>s. ToString rt (Some (JString s)) = Inr s) \<and>
         (\<forall>n. ToString rt (Some (JNumber n)) = Inr (Number_toString rt n)) \<and>
         (\<forall>b. ToString rt (Some (JBoolean b)) = Inr (if b then ''true'' else ''false'')) \<and>
         ToString rt (Some JNull) = Inr ''null''\<close>
  using assms
  by (simp add: set_repeat_result repeatValue_def ToString_primitive)

theorem set_repeat_normalises_witness:
  \<open>(no_arguments(''mode'' \<mapsto> JString ''none'')) ''mode'' = Some (JString ''none'') \<and>
   JString ''none'' \<notin> {JString ''off'', JString ''one'', JString ''all''} \<and>
   ToString quiet_runtime (Some (JString ''none'')) = Inr ''none'' \<and>
   fst (callTool quiet_runtime ''music_set_repeat''
          (Some (no_arguments(''mode'' \<mapsto> JString ''none'')))) =
     [''osascript -e '' @ [sq] @ ''tell application "Music" to set song repeat to all'' @ [sq]] \<and>
   \<not> isError (snd (callTool quiet_runtime ''music_set_repeat''
                      (Some (no_arguments(''mode'' \<mapsto> JString ''none'')))))\<close>
proof -
  define a where "a = no_arguments(''mode'' \<mapsto> JString ''none'')"
  have m: "a ''mode'' = Some (JString ''none'')" by (simp add: a_def)
  have o: "JString ''none'' \<notin> {JString ''off'', JString ''one'', JString ''all''}" by simp
  have p: "ToString quiet_runtime (Some (JString ''none'')) = Inr ''none''"
    by (simp add: ToString_def)
  have q: "execSync quiet_runtime c = Inr []" for c by (simp add: quiet_runtime_def)
  note T = set_repeat_normalises [where a = a and v = "JString ''none''" and rt = quiet_runtime
      and t = "''none''", OF m o p]
  have c: \<open>fst (callTool quiet_runtime ''music_set_repeat'' (Some a)) =
     [''osascript -e '' @ [sq] @ ''tell application "Music" to set song repeat to all'' @ [sq]]\<close>
    using T [THEN conjunct1] by (simp add: single_quoted_command_def replace_global_def)
  have e: "\<not> isError (snd (callTool quiet_runtime ''music_set_repeat'' (Some a)))"
    using T [THEN conjunct2, THEN conjunct1, rule_format, OF q] .
  from m o p c e show ?thesis unfolding a_def by (intro conjI)
qed

section \<open>Empty results\<close>

lemma line_in_script:
  "l \<in> set ls \<Longrightarrow> sublist l (join_lines ls)"
proof (induction ls rule: join_lines.induct)
  case 1
  then show ?case by simp
next
  case (2 l')
  then show ?case by simp
next
  case (3 l' m ls)
  show ?case
  proof (cases "l = l'")
    case True
    then show ?thesis by (simp add: sublist_append_rightI)
  next
    case False
    with 3 have "sublist l (join_lines (m # ls))" by simp
    then have "sublist l ((l' @ [nl]) @ join_lines (m # ls))"
      by (rule sublist_order.order_trans) (rule sublist_append_leftI)
    then show ?thesis by simp
  qed
qed

lemma switch_get_playlists:
  "callTool_switch rt ''music_get_playlists'' args = music_get_playlists rt"
  by (simp add: callTool_switch_def)

lemma empty_guards:
  \<open>sublist ''    if trackList is "" then'' (script_get_playlist_tracks s l)\<close>
  \<open>sublist ''      return "Playlist is empty"'' (script_get_playlist_tracks s l)\<close>
  \<open>sublist ''  if results is "" then'' (script_search_songs s l)\<close>
  \<open>sublist ''  if results is "" then'' (script_search_albums s l)\<close>
  \<open>sublist ''  if results is "" then'' (script_search_artists s l)\<close>
  unfolding script_get_playlist_tracks_def script_search_songs_def script_search_albums_def
    script_search_artists_def
  by (rule line_in_script, simp)+

lemma no_guard_in_get_playlists:
  \<open>\<not> sublist ''is ""'' script_get_playlists\<close>
  unfolding script_get_playlists_def by code_simp

text \<open>
  Claim C9 says that an empty result set always gives an explicit message. When the script
  that lists the playlists prints nothing, the result text is the header \<open>Playlists:\<close> and a
  line feed, with no message: that script has no test for an empty list, while the scripts
  that list the tracks of a playlist and that search the library have one.
\<close>

theorem get_playlists_empty_output:
  \<open>callTool quiet_runtime ''music_get_playlists'' None =
     ([double_quoted_command script_get_playlists],
      \<lparr>text = ''Playlists:'' @ [nl], isError = False\<rparr>) \<and>
   \<not> sublist ''is ""'' script_get_playlists \<and>
   sublist ''    if trackList is "" then'' (script_get_playlist_tracks s l) \<and>
   sublist ''  if results is "" then'' (script_search_songs s l) \<and>
   sublist ''  if results is "" then'' (script_search_albums s l) \<and>
   sublist ''  if results is "" then'' (script_search_artists s l)\<close>
proof (intro conjI)
  show \<open>callTool quiet_runtime ''music_get_playlists'' None =
     ([double_quoted_command script_get_playlists],
      \<lparr>text = ''Playlists:'' @ [nl], isError = False\<rparr>)\<close>
    by (simp add: callTool_def switch_get_playlists music_get_playlists_def returning_multi
        quiet_runtime_def trim_def ok_def)
qed (rule no_guard_in_get_playlists empty_guards)+

section \<open>Failures\<close>

lemma surfaces_single: "surfaces_failure rt (returning (runAppleScript rt s) f)"
  by (simp add: surfaces_failure_def returning_single)

lemma surfaces_checked: "surfaces_failure rt (returning_checked (runAppleScript rt s) f)"
  by (simp add: surfaces_failure_def returning_checked_single)

lemma surfaces_multi: "surfaces_failure rt (returning (runAppleScriptMulti rt s) f)"
  by (simp add: surfaces_failure_def returning_multi)

lemma surfaces_none: "surfaces_failure rt ([], r)"
  by (simp add: surfaces_failure_def)

lemmas surfaces = surfaces_single surfaces_checked surfaces_multi surfaces_none

lemma surfaces_branches:
  "surfaces_failure rt (music_play rt)"
  "surfaces_failure rt (music_pause rt)"
  "surfaces_failure rt (music_stop rt)"
  "surfaces_failure rt (music_next rt)"
  "surfaces_failure rt (music_previous rt)"
  "surfaces_failure rt (music_toggle_playback rt)"
  "surfaces_failure rt (music_get_current_track rt)"
  "surfaces_failure rt (music_get_player_state rt)"
  "surfaces_failure rt (music_get_volume rt)"
  "surfaces_failure rt (music_get_position rt)"
  "surfaces_failure rt (music_get_shuffle rt)"
  "surfaces_failure rt (music_get_repeat rt)"
  "surfaces_failure rt (music_get_playlists rt)"
  "surfaces_failure rt (music_love_track rt)"
  "surfaces_failure rt (music_dislike_track rt)"
  "surfaces_failure rt (music_open rt)"
  "surfaces_failure rt (music_quit rt)"
  unfolding music_play_def music_pause_def music_stop_def music_next_def music_previous_def
    music_toggle_playback_def music_get_current_track_def music_get_player_state_def
    music_get_volume_def music_get_position_def music_get_shuffle_def music_get_repeat_def
    music_get_playlists_def music_love_track_def music_dislike_track_def music_open_def
    music_quit_def
  by (rule surfaces)+

lemma surfaces_argument_branches:
  "surfaces_failure rt (music_set_volume rt args)"
  "surfaces_failure rt (music_set_position rt args)"
  "surfaces_failure rt (music_set_shuffle rt args)"
  "surfaces_failure rt (music_set_repeat rt args)"
  "surfaces_failure rt (music_get_playlist_tracks rt args)"
  "surfaces_failure rt (music_play_playlist rt args)"
  "surfaces_failure rt (music_search_library rt args)"
  "surfaces_failure rt (music_play_song rt args)"
  "surfaces_failure rt (music_play_album rt args)"
  "surfaces_failure rt (music_play_artist rt args)"
  "surfaces_failure rt (music_add_to_queue rt args)"
  unfolding music_set_volume_def music_set_position_def music_set_shuffle_def
    music_set_repeat_def music_get_playlist_tracks_def music_play_playlist_def
    music_search_library_def music_play_song_def music_play_album_def music_play_artist_def
    music_add_to_queue_def
  by (simp_all add: surfaces Let_def split: option.split sum.split)

lemma surfaces_switch: "surfaces_failure rt (callTool_switch rt name args)"
  unfolding callTool_switch_def default_case_def
  by (simp add: surfaces surfaces_branches surfaces_argument_branches)

text \<open>
  Claim C2. The handler always returns a result, for every tool name and arguments: what the
  switch throws is caught and becomes the error result whose text is \<open>Error: \<close> followed by
  the message of the thrown value; and when a command handed to the executor fails, the
  result is the error result whose text is \<open>Error: \<close> followed by the message of the error
  that the script helpers throw for that failure.
\<close>

theorem failures_become_error_results:
  "(\<forall>commands e. callTool_switch rt name args = (commands, Inl e) \<longrightarrow>
      callTool rt name args =
        (commands, \<lparr>text = ''Error: '' @ message rt e, isError = True\<rparr>)) \<and>
   (\<forall>command err.
      command \<in> set (fst (callTool rt name args)) \<and> execSync rt command = Inl err \<longrightarrow>
      snd (callTool rt name args) =
        \<lparr>text = ''Error: AppleScript error: '' @ stderr_or_message err, isError = True\<rparr>)"
proof (intro conjI allI impI)
  fix commands e
  assume "callTool_switch rt name args = (commands, Inl e)"
  then show "callTool rt name args =
        (commands, \<lparr>text = ''Error: '' @ message rt e, isError = True\<rparr>)"
    by (simp add: callTool_def)
next
  fix command err
  assume h: "command \<in> set (fst (callTool rt name args)) \<and> execSync rt command = Inl err"
  then have "command \<in> set (fst (callTool_switch rt name args))"
    by (simp add: fst_callTool)
  with h surfaces_switch [of rt name args]
  have "snd (callTool_switch rt name args) =
          Inl (Error (''AppleScript error: '' @ stderr_or_message err))"
    unfolding surfaces_failure_def by blast
  then show "snd (callTool rt name args) =
        \<lparr>text = ''Error: AppleScript error: '' @ stderr_or_message err, isError = True\<rparr>"
    by (cases "callTool_switch rt name args") (simp add: callTool_def message_def)
qed

theorem failures_become_error_results_witness:
  \<open>callTool failing_runtime ''music_play'' None =
     ([''osascript -e '' @ [sq] @ ''tell application "Music" to play'' @ [sq]],
      \<lparr>text = ''Error: AppleScript error: AppleScript execution error: Music is not running'',
       isError = True\<rparr>) \<and>
   callTool quiet_runtime ''music_play_playlist'' (Some no_arguments) =
     ([], \<lparr>text = ''Error: Cannot read properties of undefined (reading ''
                    @ [sq] @ ''replace'' @ [sq] @ '')'',
           isError = True\<rparr>)\<close>
proof -
  define c where \<open>c = ''osascript -e '' @ [sq] @ ''tell application "Music" to play'' @ [sq]\<close>
  define err where
    "err = \<lparr>stderr = Some ''AppleScript execution error: Music is not running'',
            failure_message = ''Command failed''\<rparr>"
  have f: "fst (callTool failing_runtime ''music_play'' None) = [c]"
    by (simp add: fst_callTool callTool_switch_def music_play_def returning_single
        single_quoted_command_def replace_global_def c_def)
  then have m: "c \<in> set (fst (callTool failing_runtime ''music_play'' None))" by simp
  have x: "execSync failing_runtime c = Inl err"
    by (simp add: failing_runtime_def err_def)
  from m x have "c \<in> set (fst (callTool failing_runtime ''music_play'' None)) \<and>
      execSync failing_runtime c = Inl err" ..
  from failures_become_error_results [of failing_runtime "''music_play''" None,
      THEN conjunct2, rule_format, OF this]
  have "snd (callTool failing_runtime ''music_play'' None) =
      \<lparr>text = ''Error: AppleScript error: AppleScript execution error: Music is not running'',
       isError = True\<rparr>"
    by (simp add: err_def stderr_or_message_def)
  with f have 1: "callTool failing_runtime ''music_play'' None =
     ([c], \<lparr>text = ''Error: AppleScript error: AppleScript execution error: Music is not running'',
       isError = True\<rparr>)"
    by (simp add: prod_eq_iff)
  have "callTool_switch quiet_runtime ''music_play_playlist'' (Some no_arguments) =
      ([], Inl (TypeError (CallReplace ''playlist'') None))"
    by (simp add: callTool_switch_def music_play_playlist_def replace_quotes_def
        no_arguments_def)
  from failures_become_error_results [of quiet_runtime "''music_play_playlist''"
      "Some no_arguments", THEN conjunct1, rule_format, OF this]
  have 2: "callTool quiet_runtime ''music_play_playlist'' (Some no_arguments) =
     ([], \<lparr>text = ''Error: Cannot read properties of undefined (reading ''
                    @ [sq] @ ''replace'' @ [sq] @ '')'',
           isError = True\<rparr>)"
    by (simp add: message_def quiet_runtime_def engine_wording_def)
  from 1 2 show ?thesis unfolding c_def by (intro conjI)
qed

section \<open>Search\<close>

lemma switch_search_library:
  "callTool_switch rt ''music_search_library'' args = music_search_library rt args"
  by (simp add: callTool_switch_def)

lemma search_invalid_type:
  assumes "a ''searchType'' = Some t" and "t \<notin> {JString ''songs'', JString ''albums'', JString ''artists'', JString ''all''}"
  shows "fst (callTool rt ''music_search_library'' (Some a)) = []"
    and "isError (snd (callTool rt ''music_search_library'' (Some a)))"
    and "a ''query'' = Some (JString q) \<Longrightarrow> snd (callTool rt ''music_search_library'' (Some a)) =
           \<lparr>text = ''Invalid search type'', isError = True\<rparr>"
  using assms
  by (simp_all add: callTool_def switch_search_library music_search_library_def
      with_default_def replace_quotes_def Let_def split: option.splits json.splits)

lemma commands_search_library:
  assumes "a ''query'' = Some (JString q)"
    and "ToString rt (Some (case a ''limit'' of None \<Rightarrow> JNumber (Finite 20) | Some v \<Rightarrow> v)) = Inr l"
  shows "fst (callTool rt ''music_search_library'' (Some a)) =
          (let t = (case a ''searchType'' of None \<Rightarrow> JString ''all'' | Some t \<Rightarrow> t)
           in if t = JString ''songs'' \<or> t = JString ''all'' then
                [double_quoted_command (script_search_songs (escape_quotes q) l)]
              else if t = JString ''albums'' then
                [double_quoted_command (script_search_albums (escape_quotes q) l)]
              else if t = JString ''artists'' then
                [double_quoted_command (script_search_artists (escape_quotes q) l)]
              else [])"
  using assms
  by (simp add: fst_callTool switch_search_library music_search_library_def
      with_default_def replace_quotes_def returning_multi Let_def)

lemma search_scripts_text:
  \<open>script_search_songs (escape_quotes q) l =
     join_lines
                ['''',
                ''tell application "Music"'',
                ''  set results to ""'',
                ''  set matchCount to 0'',
                ''  repeat with t in (every track whose name contains "'' @ (escape_quotes q)
                @ ''" or artist contains "'' @ (escape_quotes q) @ ''" or album contains "'' @ (escape_quotes q) @ ''")'',
                ''    if matchCount < '' @ l @ '' then'',
                ''      set results to results & name of t & " - " & artist of t & " (" & album of t & ")''
                @ [bs] @ ''n"'',
                ''      set matchCount to matchCount + 1'',
                ''    end if'',
                ''  end repeat'',
                ''  if results is "" then'',
                ''    return "No results found for: '' @ (escape_quotes q) @ ''"'',
                ''  end if'',
                ''  return results'',
                ''end tell'']\<close>
  \<open>script_search_albums (escape_quotes q) l =
     join_lines
                ['''',
                ''tell application "Music"'',
                ''  set results to ""'',
                ''  set albumList to {}'',
                ''  set matchCount to 0'',
                ''  repeat with t in (every track whose album contains "'' @ (escape_quotes q) @ ''")'',
                ''    if matchCount < '' @ l @ '' then'',
                ''      set albumKey to album of t & " - " & album artist of t'',
                ''      if albumKey is not in albumList then'',
                ''        set end of albumList to albumKey'',
                ''        set results to results & album of t & " - " & album artist of t & "'' @ [bs] @ ''n"'',
                ''        set matchCount to matchCount + 1'',
                ''      end if'',
                ''    end if'',
                ''  end repeat'',
                ''  if results is "" then'',
                ''    return "No albums found for: '' @ (escape_quotes q) @ ''"'',
                ''  end if'',
                ''  return results'',
                ''end tell'']\<close>
  \<open>script_search_artists (escape_quotes q) l =
     join_lines
                ['''',
                ''tell application "Music"'',
                ''  set results to ""'',
                ''  set artistList to {}'',
                ''  set matchCount to 0'',
                ''  repeat with t in (every track whose artist contains "'' @ (escape_quotes q) @ ''")'',
                ''    if matchCount < '' @ l @ '' then'',
                ''      set artistName to artist of t'',
                ''      if artistName is not in artistList then'',
                ''        set end of artistList to artistName'',
                ''        set results to results & artistName & "'' @ [bs] @ ''n"'',
                ''        set matchCount to matchCount + 1'',
                ''      end if'',
                ''    end if'',
                ''  end repeat'',
                ''  if results is "" then'',
                ''    return "No artists found for: '' @ (escape_quotes q) @ ''"'',
                ''  end if'',
                ''  return results'',
                ''end tell'']\<close>
  by (simp_all only: script_search_songs_def script_search_albums_def script_search_artists_def)

lemma ToString_safe_integer:
  assumes "\<bar>n\<bar> < 2 ^ 53"
  shows "ToString rt (Some (JNumber (Finite (of_int n)))) = Inr (decimal n)"
  by (simp add: ToString_def Number_toString_int [OF assms])

text \<open>
  Claim C6 says that a search type outside \<open>songs\<close>, \<open>albums\<close>, \<open>artists\<close>, \<open>all\<close> always
  gives the text \<open>Invalid search type\<close>. With such a search type and no query, the call of
  \<^verbatim>\<open>replace\<close> on the missing query throws before the search type is looked at, and the
  text is that failure's message.
\<close>

theorem search_invalid_type_counterexample:
  \<open>(no_arguments(''searchType'' \<mapsto> JString ''invalid'')) ''searchType'' =
     Some (JString ''invalid'') \<and>
   JString ''invalid'' \<notin> {JString ''songs'', JString ''albums'', JString ''artists'', JString ''all''} \<and>
   callTool quiet_runtime ''music_search_library''
     (Some (no_arguments(''searchType'' \<mapsto> JString ''invalid''))) =
     ([], \<lparr>text = ''Error: Cannot read properties of undefined (reading ''
                    @ [sq] @ ''replace'' @ [sq] @ '')'',
           isError = True\<rparr>) \<and>
   text (snd (callTool quiet_runtime ''music_search_library''
                (Some (no_arguments(''searchType'' \<mapsto> JString ''invalid''))))) \<noteq>
     ''Invalid search type''\<close>
  by (simp add: callTool_def switch_search_library music_search_library_def replace_quotes_def
      no_arguments_def message_def quiet_runtime_def engine_wording_def Let_def)

text \<open>
  Claim C6, amended. A search type outside \<open>songs\<close>, \<open>albums\<close>, \<open>artists\<close>, \<open>all\<close> gives an
  error result and no command; the text is \<open>Invalid search type\<close> when the query is a string.
  With a query that is a string, a limit that prints as \<open>l\<close> and a search type of the
  enumeration (or none), exactly one command is handed over: the script below for \<open>songs\<close>,
  \<open>all\<close> and the default, the second for \<open>albums\<close>, the third for \<open>artists\<close>. Each script
  adds a result only while the match count is below \<open>l\<close>; the albums script skips a track
  whose album and album artist it has already listed, the artists script one whose artist
  it has already listed. An integer limit below \<open>2^53\<close> in magnitude prints as its decimal
  numeral.
\<close>

theorem search_library_dispatch:
  \<open>(\<forall>t. a ''searchType'' = Some t \<and> t \<notin> {JString ''songs'', JString ''albums'', JString ''artists'', JString ''all''} \<longrightarrow>
      fst (callTool rt ''music_search_library'' (Some a)) = [] \<and>
      isError (snd (callTool rt ''music_search_library'' (Some a))) \<and>
      (\<forall>q. a ''query'' = Some (JString q) \<longrightarrow>
         snd (callTool rt ''music_search_library'' (Some a)) =
           \<lparr>text = ''Invalid search type'', isError = True\<rparr>)) \<and>
   (\<forall>q l. a ''query'' = Some (JString q) \<and>
          ToString rt (Some (case a ''limit'' of None \<Rightarrow> JNumber (Finite 20) | Some v \<Rightarrow> v)) = Inr l \<longrightarrow>
      ((case a ''searchType'' of None \<Rightarrow> JString ''all'' | Some t \<Rightarrow> t) \<in> {JString ''songs'', JString ''all''} \<longrightarrow>
         fst (callTool rt ''music_search_library'' (Some a)) =
           [double_quoted_command
              (join_lines
                ['''',
                ''tell application "Music"'',
                ''  set results to ""'',
                ''  set matchCount to 0'',
                ''  repeat with t in (every track whose name contains "'' @ (escape_quotes q)
                @ ''" or artist contains "'' @ (escape_quotes q) @ ''" or album contains "'' @ (escape_quotes q) @ ''")'',
                ''    if matchCount < '' @ l @ '' then'',
                ''      set results to results & name of t & " - " & artist of t & " (" & album of t & ")''
                @ [bs] @ ''n"'',
                ''      set matchCount to matchCount + 1'',
                ''    end if'',
                ''  end repeat'',
                ''  if results is "" then'',
                ''    return "No results found for: '' @ (escape_quotes q) @ ''"'',
                ''  end if'',
                ''  return results'',
                ''end tell''])]) \<and>
      (a ''searchType'' = Some (JString ''albums'') \<longrightarrow>
         fst (callTool rt ''music_search_library'' (Some a)) =
           [double_quoted_command
              (join_lines
                ['''',
                ''tell application "Music"'',
                ''  set results to ""'',
                ''  set albumList to {}'',
                ''  set matchCount to 0'',
                ''  repeat with t in (every track whose album contains "'' @ (escape_quotes q) @ ''")'',
                ''    if matchCount < '' @ l @ '' then'',
                ''      set albumKey to album of t & " - " & album artist of t'',
                ''      if albumKey is not in albumList then'',
                ''        set end of albumList to albumKey'',
                ''        set results to results & album of t & " - " & album artist of t & "'' @ [bs] @ ''n"'',
                ''        set matchCount to matchCount + 1'',
                ''      end if'',
                ''    end if'',
                ''  end repeat'',
                ''  if results is "" then'',
                ''    return "No albums found for: '' @ (escape_quotes q) @ ''"'',
                ''  end if'',
                ''  return results'',
                ''end tell''])]) \<and>
      (a ''searchType'' = Some (JString ''artists'') \<longrightarrow>
         fst (callTool rt ''music_search_library'' (Some a)) =
           [double_quoted_command
              (join_lines
                ['''',
                ''tell application "Music"'',
                ''  set results to ""'',
                ''  set artistList to {}'',
                ''  set matchCount to 0'',
                ''  repeat with t in (every track whose artist contains "'' @ (escape_quotes q) @ ''")'',
                ''    if matchCount < '' @ l @ '' then'',
                ''      set artistName to artist of t'',
                ''      if artistName is not in artistList then'',
                ''        set end of artistList to artistName'',
                ''        set results to results & artistName & "'' @ [bs] @ ''n"'',
                ''        set matchCount to matchCount + 1'',
                ''      end if'',
                ''    end if'',
                ''  end repeat'',
                ''  if results is "" then'',
                ''    return "No artists found for: '' @ (escape_quotes q) @ ''"'',
                ''  end if'',
                ''  return results'',
                ''end tell''])])) \<and>
   (\<forall>n. \<bar>n\<bar> < 2 ^ 53 \<longrightarrow> ToString rt (Some (JNumber (Finite (of_int n)))) = Inr (decimal n))\<close>
proof (intro conjI allI impI)
  fix t
  assume "a ''searchType'' = Some t \<and> t \<notin> {JString ''songs'', JString ''albums'', JString ''artists'', JString ''all''}"
  then have t: "a ''searchType'' = Some t" "t \<notin> {JString ''songs'', JString ''albums'', JString ''artists'', JString ''all''}"
    by simp_all
  show "fst (callTool rt ''music_search_library'' (Some a)) = []"
    by (rule search_invalid_type(1) [where a = a and t = t, OF t])
  show "isError (snd (callTool rt ''music_search_library'' (Some a)))"
    by (rule search_invalid_type(2) [where a = a and t = t, OF t])
  fix q
  assume "a ''query'' = Some (JString q)"
  then show "snd (callTool rt ''music_search_library'' (Some a)) =
           \<lparr>text = ''Invalid search type'', isError = True\<rparr>"
    by (rule search_invalid_type(3) [where a = a and t = t, OF t])
next
  fix q l
  assume h: "a ''query'' = Some (JString q) \<and> ToString rt (Some (case a ''limit'' of None \<Rightarrow> JNumber (Finite 20) | Some v \<Rightarrow> v)) = Inr l"
  then have q: "a ''query'' = Some (JString q)" and l: "ToString rt (Some (case a ''limit'' of None \<Rightarrow> JNumber (Finite 20) | Some v \<Rightarrow> v)) = Inr l"
    by simp_all
  note C = commands_search_library [where a = a and q = q and rt = rt and l = l, OF q l]
  {
    assume "(case a ''searchType'' of None \<Rightarrow> JString ''all'' | Some t \<Rightarrow> t) \<in> {JString ''songs'', JString ''all''}"
    then have "fst (callTool rt ''music_search_library'' (Some a)) =
        [double_quoted_command (script_search_songs (escape_quotes q) l)]"
      unfolding C by (auto simp add: Let_def)
    then show \<open>fst (callTool rt ''music_search_library'' (Some a)) =
           [double_quoted_command
              (join_lines
                ['''',
                ''tell application "Music"'',
                ''  set results to ""'',
                ''  set matchCount to 0'',
                ''  repeat with t in (every track whose name contains "'' @ (escape_quotes q)
                @ ''" or artist contains "'' @ (escape_quotes q) @ ''" or album contains "'' @ (escape_quotes q) @ ''")'',
                ''    if matchCount < '' @ l @ '' then'',
                ''      set results to results & name of t & " - " & artist of t & " (" & album of t & ")''
                @ [bs] @ ''n"'',
                ''      set matchCount to matchCount + 1'',
                ''    end if'',
                ''  end repeat'',
                ''  if results is "" then'',
                ''    return "No results found for: '' @ (escape_quotes q) @ ''"'',
                ''  end if'',
                ''  return results'',
                ''end tell''])]\<close>
      by (simp only: search_scripts_text)
  }
  {
    assume "a ''searchType'' = Some (JString ''albums'')"
    then have "fst (callTool rt ''music_search_library'' (Some a)) =
        [double_quoted_command (script_search_albums (escape_quotes q) l)]"
      unfolding C by (simp add: Let_def)
    then show \<open>fst (callTool rt ''music_search_library'' (Some a)) =
           [double_quoted_command
              (join_lines
                ['''',
                ''tell application "Music"'',
                ''  set results to ""'',
                ''  set albumList to {}'',
                ''  set matchCount to 0'',
                ''  repeat with t in (every track whose album contains "'' @ (escape_quotes q) @ ''")'',
                ''    if matchCount < '' @ l @ '' then'',
                ''      set albumKey to album of t & " - " & album artist of t'',
                ''      if albumKey is not in albumList then'',
                ''        set end of albumList to albumKey'',
                ''        set results to results & album of t & " - " & album artist of t & "'' @ [bs] @ ''n"'',
                ''        set matchCount to matchCount + 1'',
                ''      end if'',
                ''    end if'',
                ''  end repeat'',
                ''  if results is "" then'',
                ''    return "No albums found for: '' @ (escape_quotes q) @ ''"'',
                ''  end if'',
                ''  return results'',
                ''end tell''])]\<close>
      by (simp only: search_scripts_text)
  }
  {
    assume "a ''searchType'' = Some (JString ''artists'')"
    then have "fst (callTool rt ''music_search_library'' (Some a)) =
        [double_quoted_command (script_search_artists (escape_quotes q) l)]"
      unfolding C by (simp add: Let_def)
    then show \<open>fst (callTool rt ''music_search_library'' (Some a)) =
           [double_quoted_command
              (join_lines
                ['''',
                ''tell application "Music"'',
                ''  set results to ""'',
                ''  set artistList to {}'',
                ''  set matchCount to 0'',
                ''  repeat with t in (every track whose artist contains "'' @ (escape_quotes q) @ ''")'',
                ''    if matchCount < '' @ l @ '' then'',
                ''      set artistName to artist of t'',
                ''      if artistName is not in artistList then'',
                ''        set end of artistList to artistName'',
                ''        set results to results & artistName & "'' @ [bs] @ ''n"'',
                ''        set matchCount to matchCount + 1'',
                ''      end if'',
                ''    end if'',
                ''  end repeat'',
                ''  if results is "" then'',
                ''    return "No artists found for: '' @ (escape_quotes q) @ ''"'',
                ''  end if'',
                ''  return results'',
                ''end tell''])]\<close>
      by (simp only: search_scripts_text)
  }
next
  fix n :: int
  assume "\<bar>n\<bar> < 2 ^ 53"
  then show "ToString rt (Some (JNumber (Finite (of_int n)))) = Inr (decimal n)"
    by (rule ToString_safe_integer)
qed

theorem search_library_dispatch_witness:
  \<open>(no_arguments(''query'' \<mapsto> JString ''Test'', ''searchType'' \<mapsto> JString ''invalid'')) ''searchType'' = Some (JString ''invalid'') \<and>
   JString ''invalid'' \<notin> {JString ''songs'', JString ''albums'', JString ''artists'', JString ''all''} \<and>
   (no_arguments(''query'' \<mapsto> JString ''Test'', ''searchType'' \<mapsto> JString ''invalid'')) ''query'' = Some (JString ''Test'') \<and>
   callTool failing_runtime ''music_search_library'' (Some (no_arguments(''query'' \<mapsto> JString ''Test'', ''searchType'' \<mapsto> JString ''invalid''))) =
     ([], \<lparr>text = ''Invalid search type'', isError = True\<rparr>) \<and>
   (no_arguments(''query'' \<mapsto> JString ''Test "Query"'', ''searchType'' \<mapsto> JString ''albums'',
        ''limit'' \<mapsto> JNumber (Finite 5))) ''query'' = Some (JString ''Test "Query"'') \<and>
   (no_arguments(''query'' \<mapsto> JString ''Test "Query"'', ''searchType'' \<mapsto> JString ''albums'',
        ''limit'' \<mapsto> JNumber (Finite 5))) ''searchType'' = Some (JString ''albums'') \<and>
   ToString quiet_runtime (Some (JNumber (Finite 5))) = Inr ''5'' \<and>
   fst (callTool quiet_runtime ''music_search_library'' (Some (no_arguments(''query'' \<mapsto> JString ''Test "Query"'', ''searchType'' \<mapsto> JString ''albums'',
        ''limit'' \<mapsto> JNumber (Finite 5))))) =
     [join_lines
      [''osascript -e "'',
       ''tell application '' @ [bs] @ ''"Music'' @ [bs] @ ''"'',
       ''  set results to '' @ [bs] @ ''"'' @ [bs] @ ''"'',
       ''  set albumList to {}'',
       ''  set matchCount to 0'',
       ''  repeat with t in (every track whose album contains '' @ [bs] @ ''"Test '' @ [bs, bs, bs] @ ''"Query'' @ [bs, bs, bs] @ ''"'' @ [bs] @ ''")'',
       ''    if matchCount < 5 then'',
       ''      set albumKey to album of t & '' @ [bs] @ ''" - '' @ [bs] @ ''" & album artist of t'',
       ''      if albumKey is not in albumList then'',
       ''        set end of albumList to albumKey'',
       ''        set results to results & album of t & '' @ [bs] @ ''" - '' @ [bs] @ ''" & album artist of t & '' @ [bs] @ ''"'' @ [bs, bs] @ ''n'' @ [bs] @ ''"'',
       ''        set matchCount to matchCount + 1'',
       ''      end if'',
       ''    end if'',
       ''  end repeat'',
       ''  if results is '' @ [bs] @ ''"'' @ [bs] @ ''" then'',
       ''    return '' @ [bs] @ ''"No albums found for: Test '' @ [bs, bs, bs] @ ''"Query'' @ [bs, bs, bs] @ ''"'' @ [bs] @ ''"'',
       ''  end if'',
       ''  return results'',
       ''end tell"'']]\<close>
proof -
  define a where \<open>a = (no_arguments(''query'' \<mapsto> JString ''Test'', ''searchType'' \<mapsto> JString ''invalid''))\<close>
  define b where \<open>b = (no_arguments(''query'' \<mapsto> JString ''Test "Query"'', ''searchType'' \<mapsto> JString ''albums'',
        ''limit'' \<mapsto> JNumber (Finite 5)))\<close>
  have ty: "a ''searchType'' = Some (JString ''invalid'')"
    and out: "JString ''invalid'' \<notin> {JString ''songs'', JString ''albums'', JString ''artists'', JString ''all''}"
    and qa: "a ''query'' = Some (JString ''Test'')"
    by (simp_all add: a_def)
  from ty out have pre: "a ''searchType'' = Some (JString ''invalid'') \<and>
      JString ''invalid'' \<notin> {JString ''songs'', JString ''albums'', JString ''artists'', JString ''all''}" ..
  note invalid = search_library_dispatch [of a failing_runtime, THEN conjunct1, THEN spec,
      of "JString ''invalid''", THEN mp, OF pre]
  have i1: "fst (callTool failing_runtime ''music_search_library'' (Some a)) = []"
    using invalid by (rule conjunct1)
  have i2: "snd (callTool failing_runtime ''music_search_library'' (Some a)) =
           \<lparr>text = ''Invalid search type'', isError = True\<rparr>"
    using invalid [THEN conjunct2, THEN conjunct2, THEN spec, of "''Test''", THEN mp, OF qa] .
  have inv: "callTool failing_runtime ''music_search_library'' (Some a) =
     ([], \<lparr>text = ''Invalid search type'', isError = True\<rparr>)"
    using i1 i2 by (simp only: prod_eq_iff fst_conv snd_conv)
  have qb: \<open>b ''query'' = Some (JString ''Test "Query"'')\<close>
    and tb: "b ''searchType'' = Some (JString ''albums'')"
    and lb: "b ''limit'' = Some (JNumber (Finite 5))"
    by (simp_all add: b_def)
  have five: "ToString quiet_runtime (Some (JNumber (Finite 5))) = Inr ''5''"
    by (simp add: ToString_def Number_toString_def decimal_def digits.simps)
  then have lim: "ToString quiet_runtime (Some (case b ''limit'' of None \<Rightarrow> JNumber (Finite 20) | Some v \<Rightarrow> v)) = Inr ''5''"
    by (simp add: lb)
  from qb lim have pre2: \<open>b ''query'' = Some (JString ''Test "Query"'') \<and>
      ToString quiet_runtime (Some (case b ''limit'' of None \<Rightarrow> JNumber (Finite 20) | Some v \<Rightarrow> v)) = Inr ''5''\<close> ..
  note valid = search_library_dispatch [of b quiet_runtime, THEN conjunct2, THEN conjunct1,
      THEN spec, of \<open>''Test "Query"''\<close>, THEN spec, of "''5''", THEN mp, OF pre2,
      THEN conjunct2, THEN conjunct1, THEN mp, OF tb]
  have alb: \<open>fst (callTool quiet_runtime ''music_search_library'' (Some b)) =
     [join_lines
      [''osascript -e "'',
       ''tell application '' @ [bs] @ ''"Music'' @ [bs] @ ''"'',
       ''  set results to '' @ [bs] @ ''"'' @ [bs] @ ''"'',
       ''  set albumList to {}'',
       ''  set matchCount to 0'',
       ''  repeat with t in (every track whose album contains '' @ [bs] @ ''"Test '' @ [bs, bs, bs] @ ''"Query'' @ [bs, bs, bs] @ ''"'' @ [bs] @ ''")'',
       ''    if matchCount < 5 then'',
       ''      set albumKey to album of t & '' @ [bs] @ ''" - '' @ [bs] @ ''" & album artist of t'',
       ''      if albumKey is not in albumList then'',
       ''        set end of albumList to albumKey'',
       ''        set results to results & album of t & '' @ [bs] @ ''" - '' @ [bs] @ ''" & album artist of t & '' @ [bs] @ ''"'' @ [bs, bs] @ ''n'' @ [bs] @ ''"'',
       ''        set matchCount to matchCount + 1'',
       ''      end if'',
       ''    end if'',
       ''  end repeat'',
       ''  if results is '' @ [bs] @ ''"'' @ [bs] @ ''" then'',
       ''    return '' @ [bs] @ ''"No albums found for: Test '' @ [bs, bs, bs] @ ''"Query'' @ [bs, bs, bs] @ ''"'' @ [bs] @ ''"'',
       ''  end if'',
       ''  return results'',
       ''end tell"'']]\<close>
    unfolding valid
    by (simp add: double_quoted_command_def escapedScript_def escape_quotes_def
        replace_global_def)
  from ty out qa inv qb tb five alb show ?thesis unfolding a_def b_def by (intro conjI)
qed

section \<open>Escaping and decimal numerals are injective\<close>

lemma replace_global_Nil [simp]: "replace_global c r [] = []"
  by (simp add: replace_global_def)

lemma replace_global_Cons:
  "replace_global c r (x # xs) = (if x = c then r else [x]) @ replace_global c r xs"
  by (simp add: replace_global_def)

lemma replace_global_append:
  "replace_global c r (xs @ ys) = replace_global c r xs @ replace_global c r ys"
  by (simp add: replace_global_def)

lemma escapedScript_Nil [simp]: "escapedScript [] = []"
  by (simp add: escapedScript_def)

lemma escapedScript_Cons:
  "escapedScript (x # xs) =
     (if x = bs then [bs, bs] else if x = dq then [bs, dq] else [x]) @ escapedScript xs"
  by (simp add: escapedScript_def replace_global_Cons replace_global_append)

lemma escapedScript_append:
  "escapedScript (xs @ ys) = escapedScript xs @ escapedScript ys"
  by (simp add: escapedScript_def replace_global_append)

lemma unescape_plain:
  "c \<noteq> bs \<Longrightarrow> unescape (c # cs) = c # unescape cs"
  by (cases cs) simp_all

lemma unescape_escapedScript: "unescape (escapedScript s) = s"
  by (induction s) (simp_all add: escapedScript_Cons unescape_plain)

lemma escapedScript_inject: "escapedScript s = escapedScript t \<longleftrightarrow> s = t"
  by (metis unescape_escapedScript)

lemma double_quoted_command_inject:
  "double_quoted_command s = double_quoted_command t \<longleftrightarrow> s = t"
  by (simp add: double_quoted_command_def escapedScript_inject)

lemma digit_table:
  "\<forall>n \<in> set [0..<10].
     of_char (''0123456789'' ! n) - 48 = n \<and> ''0123456789'' ! n \<noteq> CHR ''-''"
  by code_simp

lemma bare_digit:
  assumes "n < 10"
  shows "of_char (''0123456789'' ! n) - 48 = n" and "''0123456789'' ! n \<noteq> CHR ''-''"
proof -
  from assms have "n \<in> set [0..<10]" by simp
  with digit_table
  have "of_char (''0123456789'' ! n) - 48 = n \<and> ''0123456789'' ! n \<noteq> CHR ''-''" ..
  then show "of_char (''0123456789'' ! n) - 48 = n" and "''0123456789'' ! n \<noteq> CHR ''-''"
    by simp_all
qed

lemma numeral_value_snoc:
  "numeral_value (s @ [c]) = 10 * numeral_value s + (of_char c - 48)"
  by (simp add: numeral_value_def)

lemma numeral_value_digits: "numeral_value (digits n) = n"
proof (induction n rule: digits.induct)
  case (1 n)
  show ?case
  proof (cases "n < 10")
    case True
    then show ?thesis
      using bare_digit(1) [of n] by (subst digits.simps) (simp add: numeral_value_def)
  next
    case False
    have "n mod 10 < 10" by simp
    from bare_digit(1) [OF this] 1 False show ?thesis
      by (subst digits.simps) (simp add: numeral_value_snoc)
  qed
qed

lemma digits_inject: "digits n = digits m \<longleftrightarrow> n = m"
  by (metis numeral_value_digits)

lemma hd_digits: "\<exists>c cs. digits n = c # cs \<and> c \<noteq> CHR ''-''"
proof (induction n rule: digits.induct)
  case (1 n)
  show ?case
  proof (cases "n < 10")
    case True
    then show ?thesis using bare_digit(2) [of n] by (subst digits.simps) simp
  next
    case False
    with 1 obtain c cs where "digits (n div 10) = c # cs" "c \<noteq> CHR ''-''" by blast
    with False show ?thesis by (subst digits.simps) simp
  qed
qed

lemma decimal_inject: "decimal n = decimal m \<longleftrightarrow> n = m"
proof
  assume eq: "decimal n = decimal m"
  obtain c cs where n: "digits (nat n) = c # cs" "c \<noteq> CHR ''-''" using hd_digits by blast
  obtain d ds where m: "digits (nat m) = d # ds" "d \<noteq> CHR ''-''" using hd_digits by blast
  show "n = m"
  proof (cases "n < 0")
    case True
    show ?thesis
    proof (cases "m < 0")
      case True
      with \<open>n < 0\<close> eq have "digits (nat (- n)) = digits (nat (- m))"
        by (simp add: decimal_def)
      then have "nat (- n) = nat (- m)" by (simp add: digits_inject)
      with True \<open>n < 0\<close> show ?thesis by simp
    next
      case False
      with \<open>n < 0\<close> eq m show ?thesis by (simp add: decimal_def)
    qed
  next
    case False
    show ?thesis
    proof (cases "m < 0")
      case True
      with False eq n show ?thesis by (auto simp add: decimal_def)
    next
      case m0: False
      with False eq have "digits (nat n) = digits (nat m)"
        by (simp add: decimal_def)
      then have "nat n = nat m" by (simp add: digits_inject)
      with False m0 show ?thesis by simp
    qed
  qed
qed simp

section \<open>Defaults\<close>

lemma switch_get_playlist_tracks:
  "callTool_switch rt ''music_get_playlist_tracks'' args = music_get_playlist_tracks rt args"
  by (simp add: callTool_switch_def)

lemma switch_play_playlist:
  "callTool_switch rt ''music_play_playlist'' args = music_play_playlist rt args"
  by (simp add: callTool_switch_def)

lemma switch_play_artist:
  "callTool_switch rt ''music_play_artist'' args = music_play_artist rt args"
  by (simp add: callTool_switch_def)

lemma limit_absent_tracks:
  "callTool rt ''music_get_playlist_tracks'' (Some (a(''limit'' := None))) =
   callTool rt ''music_get_playlist_tracks'' (Some (a(''limit'' \<mapsto> JNumber (Finite 50))))"
  by (simp add: callTool_def switch_get_playlist_tracks music_get_playlist_tracks_def
      with_default_def
      cong: sum.case_cong)

lemma limit_absent_search:
  "callTool rt ''music_search_library'' (Some (a(''limit'' := None))) =
   callTool rt ''music_search_library'' (Some (a(''limit'' \<mapsto> JNumber (Finite 20))))"
  by (simp add: callTool_def switch_search_library music_search_library_def with_default_def
      cong: sum.case_cong)

lemma searchType_absent:
  "callTool rt ''music_search_library'' (Some (a(''searchType'' := None))) =
   callTool rt ''music_search_library'' (Some (a(''searchType'' \<mapsto> JString ''all'')))"
  by (simp add: callTool_def switch_search_library music_search_library_def with_default_def
      cong: sum.case_cong)

lemma shuffle_absent_playlist:
  "callTool rt ''music_play_playlist'' (Some (a(''shuffle'' := None))) =
   callTool rt ''music_play_playlist'' (Some (a(''shuffle'' \<mapsto> JBoolean False)))"
  by (simp add: callTool_def switch_play_playlist music_play_playlist_def with_default_def
      cong: sum.case_cong)

lemma shuffle_absent_artist:
  "callTool rt ''music_play_artist'' (Some (a(''shuffle'' := None))) =
   callTool rt ''music_play_artist'' (Some (a(''shuffle'' \<mapsto> JBoolean True)))"
  by (simp add: callTool_def switch_play_artist music_play_artist_def with_default_def
      cong: sum.case_cong)

lemma tracks_command:
  assumes "a ''playlist'' = Some (JString p)" and "ToString rt (Some (case a ''limit'' of None \<Rightarrow> JNumber (Finite 50) | Some v \<Rightarrow> v)) = Inr l"
  shows "fst (callTool rt ''music_get_playlist_tracks'' (Some a)) =
           [double_quoted_command (script_get_playlist_tracks (escape_quotes p) l)]"
  using assms
  by (simp add: fst_callTool switch_get_playlist_tracks music_get_playlist_tracks_def
      with_default_def replace_quotes_def returning_multi)

lemma play_playlist_command:
  assumes "a ''playlist'' = Some (JString p)"
  shows "fst (callTool rt ''music_play_playlist'' (Some a)) =
           [double_quoted_command (script_play_playlist (escape_quotes p) (case a ''shuffle'' of None \<Rightarrow> False | Some v \<Rightarrow> ToBoolean (Some v)))]"
  using assms
  by (simp add: fst_callTool switch_play_playlist music_play_playlist_def
      with_default_def replace_quotes_def returning_multi ToBoolean_def Let_def
      split: option.split)

lemma play_artist_command:
  assumes "a ''artist'' = Some (JString r)"
  shows "fst (callTool rt ''music_play_artist'' (Some a)) =
           [double_quoted_command (script_play_artist (escape_quotes r) (case a ''shuffle'' of None \<Rightarrow> True | Some v \<Rightarrow> ToBoolean (Some v)))]"
  using assms
  by (simp add: fst_callTool switch_play_artist music_play_artist_def
      with_default_def replace_quotes_def returning_multi ToBoolean_def Let_def
      split: option.split)

lemma default_limits_printed:
  "ToString rt (Some (JNumber (Finite 50))) = Inr ''50''"
  "ToString rt (Some (JNumber (Finite 20))) = Inr ''20''"
  by (simp_all add: ToString_def Number_toString_def decimal_def digits.simps)

lemma shuffle_changes_script:
  "script_play_playlist s True \<noteq> script_play_playlist s False"
  "script_play_artist s True \<noteq> script_play_artist s False"
  by (simp_all add: script_play_playlist_def script_play_artist_def)

lemma limit_changes_script:
  "script_get_playlist_tracks s l = script_get_playlist_tracks s l' \<longleftrightarrow> l = l'"
  "script_search_songs s l = script_search_songs s l' \<longleftrightarrow> l = l'"
  "script_search_albums s l = script_search_albums s l' \<longleftrightarrow> l = l'"
  "script_search_artists s l = script_search_artists s l' \<longleftrightarrow> l = l'"
  by (simp_all add: script_get_playlist_tracks_def script_search_songs_def
      script_search_albums_def script_search_artists_def)

lemma limit_carried:
  "double_quoted_command (script_get_playlist_tracks s l) =
   double_quoted_command (script_get_playlist_tracks s l') \<longleftrightarrow> l = l'"
  "double_quoted_command (script_search_songs s l) =
   double_quoted_command (script_search_songs s l') \<longleftrightarrow> l = l'"
  "double_quoted_command (script_search_albums s l) =
   double_quoted_command (script_search_albums s l') \<longleftrightarrow> l = l'"
  "double_quoted_command (script_search_artists s l) =
   double_quoted_command (script_search_artists s l') \<longleftrightarrow> l = l'"
  by (simp_all only: double_quoted_command_inject limit_changes_script)

lemma shuffle_carried:
  "double_quoted_command (script_play_playlist s b) =
   double_quoted_command (script_play_playlist s b') \<longleftrightarrow> b = b'"
  "double_quoted_command (script_play_artist s b) =
   double_quoted_command (script_play_artist s b') \<longleftrightarrow> b = b'"
  using shuffle_changes_script [of s]
  by (cases b; cases b'; simp add: double_quoted_command_inject; metis)+

text \<open>
  Claim C8. With the required argument a string, the command of each of the four tools is
  built from the default when the optional argument is absent and from the supplied value
  otherwise: limit 50 for the tracks of a playlist, limit 20 and search type \<open>all\<close> for the
  search, shuffle off for playing a playlist and on for playing an artist. A supplied limit
  enters the command as the engine prints it, an integer below \<open>2^53\<close> in magnitude as its
  decimal numeral; a supplied shuffle value counts by its truth value. An absent argument
  gives the same commands and result as the default supplied explicitly. Two limit texts,
  or two shuffle flags, give the same command only when they are equal, and two integers
  have the same numeral only when they are equal, so the command carries the supplied
  value.
\<close>

theorem defaults_applied:
  "(\<forall>p l. a ''playlist'' = Some (JString p) \<and> ToString rt (Some (case a ''limit'' of None \<Rightarrow> JNumber (Finite 50) | Some v \<Rightarrow> v)) = Inr l \<longrightarrow>
      fst (callTool rt ''music_get_playlist_tracks'' (Some a)) =
        [double_quoted_command (script_get_playlist_tracks (escape_quotes p) l)]) \<and>
   (\<forall>q l. a ''query'' = Some (JString q) \<and> ToString rt (Some (case a ''limit'' of None \<Rightarrow> JNumber (Finite 20) | Some v \<Rightarrow> v)) = Inr l \<longrightarrow>
      fst (callTool rt ''music_search_library'' (Some a)) =
        (let t = (case a ''searchType'' of None \<Rightarrow> JString ''all'' | Some t \<Rightarrow> t)
         in if t = JString ''songs'' \<or> t = JString ''all'' then
              [double_quoted_command (script_search_songs (escape_quotes q) l)]
            else if t = JString ''albums'' then
              [double_quoted_command (script_search_albums (escape_quotes q) l)]
            else if t = JString ''artists'' then
              [double_quoted_command (script_search_artists (escape_quotes q) l)]
            else [])) \<and>
   (\<forall>p. a ''playlist'' = Some (JString p) \<longrightarrow>
      fst (callTool rt ''music_play_playlist'' (Some a)) =
        [double_quoted_command (script_play_playlist (escape_quotes p) (case a ''shuffle'' of None \<Rightarrow> False | Some v \<Rightarrow> ToBoolean (Some v)))]) \<and>
   (\<forall>r. a ''artist'' = Some (JString r) \<longrightarrow>
      fst (callTool rt ''music_play_artist'' (Some a)) =
        [double_quoted_command (script_play_artist (escape_quotes r) (case a ''shuffle'' of None \<Rightarrow> True | Some v \<Rightarrow> ToBoolean (Some v)))]) \<and>
   ToString rt (Some (JNumber (Finite 50))) = Inr ''50'' \<and>
   ToString rt (Some (JNumber (Finite 20))) = Inr ''20'' \<and>
   (\<forall>n. \<bar>n\<bar> < 2 ^ 53 \<longrightarrow> ToString rt (Some (JNumber (Finite (of_int n)))) = Inr (decimal n)) \<and>
   (\<forall>n m. decimal n = decimal m \<longleftrightarrow> n = m) \<and>
   callTool rt ''music_get_playlist_tracks'' (Some (a(''limit'' := None))) =
     callTool rt ''music_get_playlist_tracks'' (Some (a(''limit'' \<mapsto> JNumber (Finite 50)))) \<and>
   callTool rt ''music_search_library'' (Some (a(''limit'' := None))) =
     callTool rt ''music_search_library'' (Some (a(''limit'' \<mapsto> JNumber (Finite 20)))) \<and>
   callTool rt ''music_search_library'' (Some (a(''searchType'' := None))) =
     callTool rt ''music_search_library'' (Some (a(''searchType'' \<mapsto> JString ''all''))) \<and>
   callTool rt ''music_play_playlist'' (Some (a(''shuffle'' := None))) =
     callTool rt ''music_play_playlist'' (Some (a(''shuffle'' \<mapsto> JBoolean False))) \<and>
   callTool rt ''music_play_artist'' (Some (a(''shuffle'' := None))) =
     callTool rt ''music_play_artist'' (Some (a(''shuffle'' \<mapsto> JBoolean True))) \<and>
   (\<forall>s l l'.
      (double_quoted_command (script_get_playlist_tracks s l) =
       double_quoted_command (script_get_playlist_tracks s l') \<longleftrightarrow> l = l') \<and>
      (double_quoted_command (script_search_songs s l) =
       double_quoted_command (script_search_songs s l') \<longleftrightarrow> l = l') \<and>
      (double_quoted_command (script_search_albums s l) =
       double_quoted_command (script_search_albums s l') \<longleftrightarrow> l = l') \<and>
      (double_quoted_command (script_search_artists s l) =
       double_quoted_command (script_search_artists s l') \<longleftrightarrow> l = l')) \<and>
   (\<forall>s b b'.
      (double_quoted_command (script_play_playlist s b) =
       double_quoted_command (script_play_playlist s b') \<longleftrightarrow> b = b') \<and>
      (double_quoted_command (script_play_artist s b) =
       double_quoted_command (script_play_artist s b') \<longleftrightarrow> b = b'))"
proof (intro conjI allI impI)
  fix p l
  assume "a ''playlist'' = Some (JString p) \<and> ToString rt (Some (case a ''limit'' of None \<Rightarrow> JNumber (Finite 50) | Some v \<Rightarrow> v)) = Inr l"
  then have "a ''playlist'' = Some (JString p)" "ToString rt (Some (case a ''limit'' of None \<Rightarrow> JNumber (Finite 50) | Some v \<Rightarrow> v)) = Inr l"
    by simp_all
  then show "fst (callTool rt ''music_get_playlist_tracks'' (Some a)) =
        [double_quoted_command (script_get_playlist_tracks (escape_quotes p) l)]"
    by (rule tracks_command [where a = a and p = p and rt = rt and l = l])
next
  fix q l
  assume "a ''query'' = Some (JString q) \<and> ToString rt (Some (case a ''limit'' of None \<Rightarrow> JNumber (Finite 20) | Some v \<Rightarrow> v)) = Inr l"
  then have "a ''query'' = Some (JString q)" "ToString rt (Some (case a ''limit'' of None \<Rightarrow> JNumber (Finite 20) | Some v \<Rightarrow> v)) = Inr l"
    by simp_all
  then show "fst (callTool rt ''music_search_library'' (Some a)) =
        (let t = (case a ''searchType'' of None \<Rightarrow> JString ''all'' | Some t \<Rightarrow> t)
         in if t = JString ''songs'' \<or> t = JString ''all'' then
              [double_quoted_command (script_search_songs (escape_quotes q) l)]
            else if t = JString ''albums'' then
              [double_quoted_command (script_search_albums (escape_quotes q) l)]
            else if t = JString ''artists'' then
              [double_quoted_command (script_search_artists (escape_quotes q) l)]
            else [])"
    by (rule commands_search_library [where a = a and q = q and rt = rt and l = l])
next
  fix p
  assume "a ''playlist'' = Some (JString p)"
  then show "fst (callTool rt ''music_play_playlist'' (Some a)) =
        [double_quoted_command (script_play_playlist (escape_quotes p) (case a ''shuffle'' of None \<Rightarrow> False | Some v \<Rightarrow> ToBoolean (Some v)))]"
    by (rule play_playlist_command [where a = a and p = p and rt = rt])
next
  fix r
  assume "a ''artist'' = Some (JString r)"
  then show "fst (callTool rt ''music_play_artist'' (Some a)) =
        [double_quoted_command (script_play_artist (escape_quotes r) (case a ''shuffle'' of None \<Rightarrow> True | Some v \<Rightarrow> ToBoolean (Some v)))]"
    by (rule play_artist_command [where a = a and r = r and rt = rt])
next
  fix n :: int
  assume "\<bar>n\<bar> < 2 ^ 53"
  then show "ToString rt (Some (JNumber (Finite (of_int n)))) = Inr (decimal n)"
    by (rule ToString_safe_integer)
qed (rule default_limits_printed decimal_inject limit_absent_tracks limit_absent_search
      searchType_absent shuffle_absent_playlist shuffle_absent_artist limit_carried
      shuffle_carried)+

theorem defaults_applied_witness:
  \<open>(no_arguments(''playlist'' \<mapsto> JString ''Favorites'')) ''playlist'' =
     Some (JString ''Favorites'') \<and>
   (no_arguments(''playlist'' \<mapsto> JString ''Favorites'')) ''limit'' = None \<and>
   ToString quiet_runtime (Some (JNumber (Finite 50))) = Inr ''50'' \<and>
   fst (callTool quiet_runtime ''music_get_playlist_tracks''
          (Some (no_arguments(''playlist'' \<mapsto> JString ''Favorites'')))) =
     [join_lines
      [''osascript -e "'',
       ''tell application '' @ [bs] @ ''"Music'' @ [bs] @ ''"'',
       ''  try'',
       ''    set thePlaylist to playlist '' @ [bs] @ ''"Favorites'' @ [bs] @ ''"'',
       ''    set trackList to '' @ [bs] @ ''"'' @ [bs] @ ''"'',
       ''    set trackCount to 0'',
       ''    repeat with t in tracks of thePlaylist'',
       ''      if trackCount < 50 then'',
       ''        set trackList to trackList & name of t & '' @ [bs] @ ''" - '' @ [bs] @ ''" & artist of t & '' @ [bs] @ ''"'' @ [bs, bs] @ ''n'' @ [bs] @ ''"'',
       ''        set trackCount to trackCount + 1'',
       ''      end if'',
       ''    end repeat'',
       ''    if trackList is '' @ [bs] @ ''"'' @ [bs] @ ''" then'',
       ''      return '' @ [bs] @ ''"Playlist is empty'' @ [bs] @ ''"'',
       ''    end if'',
       ''    return trackList'',
       ''  on error'',
       ''    return '' @ [bs] @ ''"Playlist not found: Favorites'' @ [bs] @ ''"'',
       ''  end try'',
       ''end tell"'']] \<and>
   fst (callTool quiet_runtime ''music_play_playlist''
          (Some (no_arguments(''playlist'' \<mapsto> JString ''Favorites'')))) =
     [double_quoted_command (script_play_playlist ''Favorites'' False)] \<and>
   (no_arguments(''query'' \<mapsto> JString ''Test'', ''limit'' \<mapsto> JNumber (Finite 7))) ''query'' =
     Some (JString ''Test'') \<and>
   ToString quiet_runtime (Some (JNumber (Finite 7))) = Inr ''7'' \<and>
   fst (callTool quiet_runtime ''music_search_library''
          (Some (no_arguments(''query'' \<mapsto> JString ''Test'', ''limit'' \<mapsto> JNumber (Finite 7))))) =
     [double_quoted_command (script_search_songs ''Test'' ''7'')] \<and>
   (no_arguments(''artist'' \<mapsto> JString ''Test Artist'')) ''artist'' =
     Some (JString ''Test Artist'') \<and>
   fst (callTool quiet_runtime ''music_play_artist''
          (Some (no_arguments(''artist'' \<mapsto> JString ''Test Artist'')))) =
     [double_quoted_command (script_play_artist ''Test Artist'' True)]\<close>
proof -
  define a where "a = no_arguments(''playlist'' \<mapsto> JString ''Favorites'')"
  define b where "b = no_arguments(''query'' \<mapsto> JString ''Test'', ''limit'' \<mapsto> JNumber (Finite 7))"
  define c where "c = no_arguments(''artist'' \<mapsto> JString ''Test Artist'')"
  have pa: "a ''playlist'' = Some (JString ''Favorites'')" and la: "a ''limit'' = None"
    and sa: "a ''shuffle'' = None"
    by (simp_all add: a_def no_arguments_def)
  have qb: "b ''query'' = Some (JString ''Test'')" and lb: "b ''limit'' = Some (JNumber (Finite 7))"
    and tb: "b ''searchType'' = None"
    by (simp_all add: b_def no_arguments_def)
  have rc: "c ''artist'' = Some (JString ''Test Artist'')" and sc: "c ''shuffle'' = None"
    by (simp_all add: c_def no_arguments_def)
  have e: "escape_quotes ''Favorites'' = ''Favorites''" "escape_quotes ''Test'' = ''Test''"
      "escape_quotes ''Test Artist'' = ''Test Artist''"
    by (simp_all add: escape_quotes_def replace_global_def)
  note A = defaults_applied [of a quiet_runtime]
  note B = defaults_applied [of b quiet_runtime]
  note C = defaults_applied [of c quiet_runtime]
  have n50: "ToString quiet_runtime (Some (JNumber (Finite 50))) = Inr ''50''"
    using A [THEN conjunct2, THEN conjunct2, THEN conjunct2, THEN conjunct2, THEN conjunct1] .
  have n7: "ToString quiet_runtime (Some (JNumber (Finite 7))) = Inr ''7''"
    by (simp add: ToString_def Number_toString_def decimal_def digits.simps)
  from pa n50 have pre1: "a ''playlist'' = Some (JString ''Favorites'') \<and>
      ToString quiet_runtime
        (Some (case a ''limit'' of None \<Rightarrow> JNumber (Finite 50) | Some v \<Rightarrow> v)) = Inr ''50''"
    by (simp add: la)
  have 1: \<open>fst (callTool quiet_runtime ''music_get_playlist_tracks'' (Some a)) =
     [join_lines
      [''osascript -e "'',
       ''tell application '' @ [bs] @ ''"Music'' @ [bs] @ ''"'',
       ''  try'',
       ''    set thePlaylist to playlist '' @ [bs] @ ''"Favorites'' @ [bs] @ ''"'',
       ''    set trackList to '' @ [bs] @ ''"'' @ [bs] @ ''"'',
       ''    set trackCount to 0'',
       ''    repeat with t in tracks of thePlaylist'',
       ''      if trackCount < 50 then'',
       ''        set trackList to trackList & name of t & '' @ [bs] @ ''" - '' @ [bs] @ ''" & artist of t & '' @ [bs] @ ''"'' @ [bs, bs] @ ''n'' @ [bs] @ ''"'',
       ''        set trackCount to trackCount + 1'',
       ''      end if'',
       ''    end repeat'',
       ''    if trackList is '' @ [bs] @ ''"'' @ [bs] @ ''" then'',
       ''      return '' @ [bs] @ ''"Playlist is empty'' @ [bs] @ ''"'',
       ''    end if'',
       ''    return trackList'',
       ''  on error'',
       ''    return '' @ [bs] @ ''"Playlist not found: Favorites'' @ [bs] @ ''"'',
       ''  end try'',
       ''end tell"'']]\<close>
    unfolding A [THEN conjunct1, THEN spec, of "''Favorites''", THEN spec, of "''50''",
        THEN mp, OF pre1]
    by (simp add: e script_get_playlist_tracks_def double_quoted_command_def escapedScript_def
        replace_global_def)
  have 2: "fst (callTool quiet_runtime ''music_play_playlist'' (Some a)) =
     [double_quoted_command (script_play_playlist ''Favorites'' False)]"
    using A [THEN conjunct2, THEN conjunct2, THEN conjunct1, THEN spec, of "''Favorites''",
        THEN mp, OF pa]
    by (simp add: sa e)
  from qb n7 have pre3: "b ''query'' = Some (JString ''Test'') \<and>
      ToString quiet_runtime
        (Some (case b ''limit'' of None \<Rightarrow> JNumber (Finite 20) | Some v \<Rightarrow> v)) = Inr ''7''"
    by (simp add: lb)
  have 3: "fst (callTool quiet_runtime ''music_search_library'' (Some b)) =
     [double_quoted_command (script_search_songs ''Test'' ''7'')]"
    using B [THEN conjunct2, THEN conjunct1, THEN spec, of "''Test''", THEN spec, of "''7''",
        THEN mp, OF pre3]
    by (simp add: tb e)
  have 4: "fst (callTool quiet_runtime ''music_play_artist'' (Some c)) =
     [double_quoted_command (script_play_artist ''Test Artist'' True)]"
    using C [THEN conjunct2, THEN conjunct2, THEN conjunct2, THEN conjunct1, THEN spec,
        of "''Test Artist''", THEN mp, OF rc]
    by (simp add: sc e)
  from pa la n50 1 2 qb n7 3 rc 4 show ?thesis unfolding a_def b_def c_def by (intro conjI)
qed

section \<open>Free text in commands\<close>

text \<open>
  Claim C1 says that a free-text argument holding a double quote reaches the command with
  that quote escaped, never bare. The playlist name \<open>a\"b\<close> holds a double quote after a
  backslash. The replacement made before the script is built puts a backslash before the
  quote and leaves the argument's own backslash as it is, so the script reads
  \<open>playlist "a\\"b"\<close>: the two backslashes are one escaped backslash and the quote after
  them ends the literal. The command below is what the executor receives, and the shell
  hands the script to the interpreter unchanged. A limit that is a string is put into the
  script as it is.
\<close>

theorem quote_after_backslash_unescaped:
  \<open>escape_quotes (''a'' @ [bs, dq] @ ''b'') = ''a'' @ [bs, bs, dq] @ ''b'' \<and>
   unescaped_quote (''a'' @ [bs, bs, dq] @ ''b'') \<and>
   fst (callTool quiet_runtime ''music_play_playlist'' (Some (no_arguments(''playlist'' \<mapsto> JString (''a'' @ [bs, dq] @ ''b''))))) =
     [double_quoted_command
        (join_lines
      ['''',
       ''tell application "Music"'',
       ''  try'',
       ''    set thePlaylist to playlist "a'' @ [bs, bs] @ ''"b"'',
       ''    '',
       ''    play thePlaylist'',
       ''    return "Playing playlist: a'' @ [bs, bs] @ ''"b"'',
       ''  on error'',
       ''    return "Playlist not found: a'' @ [bs, bs] @ ''"b"'',
       ''  end try'',
       ''end tell''])] \<and>
   double_quoted_command
     (join_lines
      ['''',
       ''tell application "Music"'',
       ''  try'',
       ''    set thePlaylist to playlist "a'' @ [bs, bs] @ ''"b"'',
       ''    '',
       ''    play thePlaylist'',
       ''    return "Playing playlist: a'' @ [bs, bs] @ ''"b"'',
       ''  on error'',
       ''    return "Playlist not found: a'' @ [bs, bs] @ ''"b"'',
       ''  end try'',
       ''end tell'']) =
     join_lines
      [''osascript -e "'',
       ''tell application '' @ [bs] @ ''"Music'' @ [bs] @ ''"'',
       ''  try'',
       ''    set thePlaylist to playlist '' @ [bs] @ ''"a'' @ [bs, bs, bs, bs, bs] @ ''"b'' @ [bs] @ ''"'',
       ''    '',
       ''    play thePlaylist'',
       ''    return '' @ [bs] @ ''"Playing playlist: a'' @ [bs, bs, bs, bs, bs] @ ''"b'' @ [bs] @ ''"'',
       ''  on error'',
       ''    return '' @ [bs] @ ''"Playlist not found: a'' @ [bs, bs, bs, bs, bs] @ ''"b'' @ [bs] @ ''"'',
       ''  end try'',
       ''end tell"''] \<and>
   unescape (escapedScript
     (join_lines
      ['''',
       ''tell application "Music"'',
       ''  try'',
       ''    set thePlaylist to playlist "a'' @ [bs, bs] @ ''"b"'',
       ''    '',
       ''    play thePlaylist'',
       ''    return "Playing playlist: a'' @ [bs, bs] @ ''"b"'',
       ''  on error'',
       ''    return "Playlist not found: a'' @ [bs, bs] @ ''"b"'',
       ''  end try'',
       ''end tell''])) =
     join_lines
      ['''',
       ''tell application "Music"'',
       ''  try'',
       ''    set thePlaylist to playlist "a'' @ [bs, bs] @ ''"b"'',
       ''    '',
       ''    play thePlaylist'',
       ''    return "Playing playlist: a'' @ [bs, bs] @ ''"b"'',
       ''  on error'',
       ''    return "Playlist not found: a'' @ [bs, bs] @ ''"b"'',
       ''  end try'',
       ''end tell''] \<and>
   fst (callTool quiet_runtime ''music_get_playlist_tracks'' (Some (no_arguments(''playlist'' \<mapsto> JString ''Favorites'', ''limit'' \<mapsto> JString ''5"'')))) =
     [double_quoted_command
        (join_lines
      ['''',
       ''tell application "Music"'',
       ''  try'',
       ''    set thePlaylist to playlist "Favorites"'',
       ''    set trackList to ""'',
       ''    set trackCount to 0'',
       ''    repeat with t in tracks of thePlaylist'',
       ''      if trackCount < 5" then'',
       ''        set trackList to trackList & name of t & " - " & artist of t & "'' @ [bs] @ ''n"'',
       ''        set trackCount to trackCount + 1'',
       ''      end if'',
       ''    end repeat'',
       ''    if trackList is "" then'',
       ''      return "Playlist is empty"'',
       ''    end if'',
       ''    return trackList'',
       ''  on error'',
       ''    return "Playlist not found: Favorites"'',
       ''  end try'',
       ''end tell''])]\<close>
proof (intro conjI)
  show \<open>escape_quotes (''a'' @ [bs, dq] @ ''b'') = ''a'' @ [bs, bs, dq] @ ''b''\<close>
    by (simp add: escape_quotes_def replace_global_def)
  show \<open>unescaped_quote (''a'' @ [bs, bs, dq] @ ''b'')\<close>
    by simp
  show \<open>fst (callTool quiet_runtime ''music_play_playlist'' (Some (no_arguments(''playlist'' \<mapsto> JString (''a'' @ [bs, dq] @ ''b''))))) =
     [double_quoted_command
        (join_lines
      ['''',
       ''tell application "Music"'',
       ''  try'',
       ''    set thePlaylist to playlist "a'' @ [bs, bs] @ ''"b"'',
       ''    '',
       ''    play thePlaylist'',
       ''    return "Playing playlist: a'' @ [bs, bs] @ ''"b"'',
       ''  on error'',
       ''    return "Playlist not found: a'' @ [bs, bs] @ ''"b"'',
       ''  end try'',
       ''end tell''])]\<close>
    by (simp add: fst_callTool switch_play_playlist music_play_playlist_def replace_quotes_def
        escape_quotes_def replace_global_def with_default_def ToBoolean_def returning_multi
        script_play_playlist_def no_arguments_def)
  show \<open>double_quoted_command
     (join_lines
      ['''',
       ''tell application "Music"'',
       ''  try'',
       ''    set thePlaylist to playlist "a'' @ [bs, bs] @ ''"b"'',
       ''    '',
       ''    play thePlaylist'',
       ''    return "Playing playlist: a'' @ [bs, bs] @ ''"b"'',
       ''  on error'',
       ''    return "Playlist not found: a'' @ [bs, bs] @ ''"b"'',
       ''  end try'',
       ''end tell'']) =
     join_lines
      [''osascript -e "'',
       ''tell application '' @ [bs] @ ''"Music'' @ [bs] @ ''"'',
       ''  try'',
       ''    set thePlaylist to playlist '' @ [bs] @ ''"a'' @ [bs, bs, bs, bs, bs] @ ''"b'' @ [bs] @ ''"'',
       ''    '',
       ''    play thePlaylist'',
       ''    return '' @ [bs] @ ''"Playing playlist: a'' @ [bs, bs, bs, bs, bs] @ ''"b'' @ [bs] @ ''"'',
       ''  on error'',
       ''    return '' @ [bs] @ ''"Playlist not found: a'' @ [bs, bs, bs, bs, bs] @ ''"b'' @ [bs] @ ''"'',
       ''  end try'',
       ''end tell"'']\<close>
    by (simp add: double_quoted_command_def escapedScript_def replace_global_def)
  show \<open>unescape (escapedScript
     (join_lines
      ['''',
       ''tell application "Music"'',
       ''  try'',
       ''    set thePlaylist to playlist "a'' @ [bs, bs] @ ''"b"'',
       ''    '',
       ''    play thePlaylist'',
       ''    return "Playing playlist: a'' @ [bs, bs] @ ''"b"'',
       ''  on error'',
       ''    return "Playlist not found: a'' @ [bs, bs] @ ''"b"'',
       ''  end try'',
       ''end tell''])) =
     join_lines
      ['''',
       ''tell application "Music"'',
       ''  try'',
       ''    set thePlaylist to playlist "a'' @ [bs, bs] @ ''"b"'',
       ''    '',
       ''    play thePlaylist'',
       ''    return "Playing playlist: a'' @ [bs, bs] @ ''"b"'',
       ''  on error'',
       ''    return "Playlist not found: a'' @ [bs, bs] @ ''"b"'',
       ''  end try'',
       ''end tell'']\<close>
    by (rule unescape_escapedScript)
  show \<open>fst (callTool quiet_runtime ''music_get_playlist_tracks'' (Some (no_arguments(''playlist'' \<mapsto> JString ''Favorites'', ''limit'' \<mapsto> JString ''5"'')))) =
     [double_quoted_command
        (join_lines
      ['''',
       ''tell application "Music"'',
       ''  try'',
       ''    set thePlaylist to playlist "Favorites"'',
       ''    set trackList to ""'',
       ''    set trackCount to 0'',
       ''    repeat with t in tracks of thePlaylist'',
       ''      if trackCount < 5" then'',
       ''        set trackList to trackList & name of t & " - " & artist of t & "'' @ [bs] @ ''n"'',
       ''        set trackCount to trackCount + 1'',
       ''      end if'',
       ''    end repeat'',
       ''    if trackList is "" then'',
       ''      return "Playlist is empty"'',
       ''    end if'',
       ''    return trackList'',
       ''  on error'',
       ''    return "Playlist not found: Favorites"'',
       ''  end try'',
       ''end tell''])]\<close>
    by (simp add: fst_callTool switch_get_playlist_tracks music_get_playlist_tracks_def
        replace_quotes_def escape_quotes_def replace_global_def with_default_def ToString_def
        returning_multi script_get_playlist_tracks_def)
qed

end
